theory Spec2Isabelle
  imports Complex_Main
begin

section \<open>Super Simple Stocks (jp\_morgan.cpp)\<close>

text \<open>
  A shallow embedding of \<^verbatim>\<open>jp_morgan.cpp\<close>: the trade database (a global vector of trade
  records), the five stock entries of the GBCE index with their valuation functions, and
  the command dispatcher \<^verbatim>\<open>process_command\<close>.

  Conventions of the model:
  \<^item> the two globals \<^verbatim>\<open>trade_db\<close> and \<^verbatim>\<open>gbce\<close> are the fields of one state record that
    every operation takes and returns;
  \<^item> \<^verbatim>\<open>time(NULL)\<close>, \<^verbatim>\<open>rand()\<close>, \<^verbatim>\<open>atoi\<close>, \<^verbatim>\<open>atof\<close> and \<^verbatim>\<open>pow\<close> belong to the C library, not to
    the program: their results, or the function itself for \<^verbatim>\<open>pow\<close>, are arguments of the
    operations that call them. One call of an operation reads one clock value (the clock
    has a resolution of one second);
  \<^item> text written to \<^verbatim>\<open>std::cout\<close> is not part of the state and is left out;
  \<^item> \<^verbatim>\<open>time_t\<close> and \<^verbatim>\<open>int\<close> values are integers: the program performs no integer
    arithmetic that could overflow on the values it stores (the counter of matching trades
    is bounded by the length of the trade database).
\<close>

subsection \<open>Values of type double\<close>

text \<open>
  A \<^verbatim>\<open>double\<close> is an IEEE 754 binary64 value: a finite number, an infinity or a NaN. The
  arithmetic is the one of the format in its default mode: the exact result is rounded to
  the nearest representable number, ties to the even significand; it overflows to an
  infinity and underflows through the subnormal numbers to zero. A division by zero does
  not trap but yields an infinity or a NaN, every comparison with a NaN is false, and a
  NaN is not equal to zero. Every operation rounds its result to binary64, as the code of
  the compilers named in the source does on x86-64 and on ARM. The sign of zero is not
  tracked: there is one zero, and it divides like \<open>+0\<close>.
\<close>

datatype double = Fin real | PInf | NInf | NaN

text \<open>The integer nearest to \<open>m\<close>, the even one of the two when \<open>m\<close> is half way.\<close>

definition round_half_even :: "real \<Rightarrow> int" where
  "round_half_even m =
     (let f = \<lfloor>m\<rfloor>; r = m - of_int f
      in if r < 1 / 2 then f else if 1 / 2 < r then f + 1 else if even f then f else f + 1)"

text \<open>
  The rounding of a real number to binary64. The significand has 53 bits, so a number
  between \<open>2\<^sup>k\<close> and \<open>2\<^sup>k\<^sup>+\<^sup>1\<close> is rounded to a multiple of \<open>2\<^sup>k\<^sup>-\<^sup>5\<^sup>2\<close>, and to a multiple of
  \<open>2\<^sup>-\<^sup>1\<^sup>0\<^sup>7\<^sup>4\<close>, the smallest subnormal number, below \<open>2\<^sup>-\<^sup>1\<^sup>0\<^sup>2\<^sup>2\<close>. A result of magnitude \<open>2\<^sup>1\<^sup>0\<^sup>2\<^sup>4\<close>
  is an overflow.
\<close>

definition round_double :: "real \<Rightarrow> double" where
  "round_double x =
     (if x = 0 then Fin 0
      else
        let e = max (\<lfloor>log 2 \<bar>x\<bar>\<rfloor> - 52) (- 1074);
            y = of_int (round_half_even (x / 2 powi e)) * 2 powi e
        in if 2 ^ 1024 \<le> \<bar>y\<bar> then (if 0 < x then PInf else NInf) else Fin y)"

text \<open>A decimal literal of the source, such as \<^verbatim>\<open>0.41\<close>.\<close>

definition dlit :: "real \<Rightarrow> double" where
  "dlit x = round_double x"

text \<open>\<^verbatim>\<open>a + b\<close>\<close>

fun dadd :: "double \<Rightarrow> double \<Rightarrow> double" where
  "dadd NaN _ = NaN"
| "dadd _ NaN = NaN"
| "dadd (Fin a) (Fin b) = round_double (a + b)"
| "dadd PInf NInf = NaN"
| "dadd NInf PInf = NaN"
| "dadd PInf _ = PInf"
| "dadd _ PInf = PInf"
| "dadd NInf _ = NInf"
| "dadd _ NInf = NInf"

text \<open>The sign of a value that is not a NaN: \<open>-1\<close>, \<open>0\<close> or \<open>1\<close>.\<close>

fun dsgn :: "double \<Rightarrow> int" where
  "dsgn (Fin a) = (if a < 0 then - 1 else if a = 0 then 0 else 1)"
| "dsgn PInf = 1"
| "dsgn NInf = - 1"
| "dsgn NaN = 0"

definition inf_of_sign :: "int \<Rightarrow> double" where
  "inf_of_sign s = (if s = 0 then NaN else if 0 < s then PInf else NInf)"

text \<open>\<^verbatim>\<open>a * b\<close>: an infinity times zero is a NaN.\<close>

fun dmul :: "double \<Rightarrow> double \<Rightarrow> double" where
  "dmul NaN _ = NaN"
| "dmul _ NaN = NaN"
| "dmul (Fin a) (Fin b) = round_double (a * b)"
| "dmul a b = inf_of_sign (dsgn a * dsgn b)"

text \<open>
  \<^verbatim>\<open>a / b\<close>: a finite nonzero value divided by zero is an infinity, zero divided by zero
  and an infinity divided by an infinity are NaNs, a finite value divided by an infinity
  is zero.
\<close>

fun ddiv :: "double \<Rightarrow> double \<Rightarrow> double" where
  "ddiv NaN _ = NaN"
| "ddiv _ NaN = NaN"
| "ddiv (Fin a) (Fin b) = (if b = 0 then inf_of_sign (dsgn (Fin a)) else round_double (a / b))"
| "ddiv (Fin a) _ = Fin 0"
| "ddiv a (Fin b) = inf_of_sign (dsgn a * (if b < 0 then - 1 else 1))"
| "ddiv _ _ = NaN"

text \<open>\<^verbatim>\<open>a < b\<close>: false when either side is a NaN.\<close>

fun dlt :: "double \<Rightarrow> double \<Rightarrow> bool" where
  "dlt NaN _ = False"
| "dlt _ NaN = False"
| "dlt (Fin a) (Fin b) = (a < b)"
| "dlt NInf b = (b \<noteq> NInf)"
| "dlt a PInf = (a \<noteq> PInf)"
| "dlt _ _ = False"

text \<open>A double used as a condition, \<^verbatim>\<open>if(x)\<close>: true unless \<open>x\<close> is zero.\<close>

definition dtrue :: "double \<Rightarrow> bool" where
  "dtrue x = (x \<noteq> Fin 0)"

text \<open>The conversion \<^verbatim>\<open>(double) n\<close> of an integer.\<close>

definition dint :: "int \<Rightarrow> double" where
  "dint n = round_double (of_int n)"

subsection \<open>The trade database\<close>

type_synonym time_t = int

text \<open>The two anonymous enumerations: stock types and trading operations.\<close>

definition COMMON_STOCK :: int where "COMMON_STOCK = 0"
definition PREF_STOCK :: int where "PREF_STOCK = 1"

definition BUY_STOCK :: int where "BUY_STOCK = 0"
definition SELL_STOCK :: int where "SELL_STOCK = 1"

definition FIFTEEN_MINS :: time_t where "FIFTEEN_MINS = 15 * 60"

text \<open>\<^verbatim>\<open>class trade_op\<close>: a trade operation record.\<close>

record trade_op =
  stamp :: time_t
  symbol :: string
  operation :: int
  quantity :: int
  price :: double

text \<open>
  The constructor \<^verbatim>\<open>trade_op(sy, op, qty, pr)\<close>; \<open>now\<close> is the value of \<^verbatim>\<open>time(NULL)\<close>.
  Any operation code other than \<^verbatim>\<open>BUY_STOCK\<close> is stored as \<^verbatim>\<open>SELL_STOCK\<close>.
\<close>

definition new_trade_op :: "time_t \<Rightarrow> string \<Rightarrow> int \<Rightarrow> int \<Rightarrow> double \<Rightarrow> trade_op" where
  "new_trade_op now sy op qty pr =
     \<lparr> stamp = now,
       symbol = sy,
       operation = (if op = BUY_STOCK then BUY_STOCK else SELL_STOCK),
       quantity = qty,
       price = pr \<rparr>"

subsection \<open>Stock entries\<close>

text \<open>\<^verbatim>\<open>class stock\<close>: an entry of the GBCE index.\<close>

record stock =
  symbol :: string
  type :: int
  last_dividend :: double
  fixed_dividend :: double
  par_value :: double
  price :: double

text \<open>
  The constructor \<^verbatim>\<open>stock(sy, ty, ld, fd, pv)\<close>: any type other than \<^verbatim>\<open>PREF_STOCK\<close> is
  stored as \<^verbatim>\<open>COMMON_STOCK\<close>, and the initial price is the par value.
\<close>

definition new_stock :: "string \<Rightarrow> int \<Rightarrow> double \<Rightarrow> double \<Rightarrow> double \<Rightarrow> stock" where
  "new_stock sy ty ld fd pv =
     \<lparr> stock.symbol = sy,
       type = (if ty = PREF_STOCK then ty else COMMON_STOCK),
       last_dividend = ld,
       fixed_dividend = fd,
       par_value = pv,
       stock.price = pv \<rparr>"

text \<open>\<^verbatim>\<open>stock::get_symbol\<close> and \<^verbatim>\<open>stock::get_price\<close>.\<close>

definition get_symbol :: "stock \<Rightarrow> string" where
  "get_symbol this = stock.symbol this"

definition get_price :: "stock \<Rightarrow> double" where
  "get_price this = stock.price this"

text \<open>
  \<^verbatim>\<open>stock::get_dividend_yield\<close>: a \<^verbatim>\<open>switch\<close> on the type with a default branch that
  falls through to \<^verbatim>\<open>return 0.0\<close>.
\<close>

definition get_dividend_yield :: "stock \<Rightarrow> double" where
  "get_dividend_yield this =
     (if type this = COMMON_STOCK then ddiv (last_dividend this) (stock.price this)
      else if type this = PREF_STOCK then ddiv (fixed_dividend this) (stock.price this)
      else dlit 0.0)"

text \<open>\<^verbatim>\<open>stock::get_pe_ratio\<close>.\<close>

definition get_pe_ratio :: "stock \<Rightarrow> double" where
  "get_pe_ratio this =
     (if dtrue (last_dividend this) then ddiv (stock.price this) (last_dividend this)
      else dlit 0.0)"

subsection \<open>The program state\<close>

text \<open>\<^verbatim>\<open>class the_index\<close> has one data member, the vector of stock entries.\<close>

record the_index =
  list :: "stock list"

text \<open>The two global objects \<^verbatim>\<open>trade_db\<close> and \<^verbatim>\<open>gbce\<close>.\<close>

record state =
  trade_db :: "trade_op list"
  gbce :: the_index

text \<open>
  The constructor \<^verbatim>\<open>the_index()\<close> with the sample table; at startup the trade database is
  empty.
\<close>

definition new_the_index :: the_index where
  "new_the_index =
     \<lparr> list =
         [ new_stock ''TEA'' COMMON_STOCK (dlit 0.00) (dint 0) (dlit 1.00),
           new_stock ''POP'' COMMON_STOCK (dlit 0.08) (dint 0) (dlit 1.00),
           new_stock ''ALE'' COMMON_STOCK (dlit 0.23) (dint 0) (dlit 0.60),
           new_stock ''GIN'' PREF_STOCK (dlit 0.08) (dint 2) (dlit 1.00),
           new_stock ''JOE'' COMMON_STOCK (dlit 0.13) (dint 0) (dlit 2.50) ] \<rparr>"

definition startup :: state where
  "startup = \<lparr> trade_db = [], gbce = new_the_index \<rparr>"

subsection \<open>Price of a stock from the trades of a time interval\<close>

text \<open>
  The \<^verbatim>\<open>while\<close> loop of \<^verbatim>\<open>stock::set_price\<close> over \<^verbatim>\<open>trade_db\<close>, with its three local
  variables \<^verbatim>\<open>trades\<close>, \<^verbatim>\<open>tq\<close> and \<^verbatim>\<open>q\<close>.
\<close>

fun set_price_loop ::
  "time_t \<Rightarrow> string \<Rightarrow> time_t \<Rightarrow> trade_op list \<Rightarrow> nat \<times> double \<times> double \<Rightarrow> nat \<times> double \<times> double"
where
  "set_price_loop now sy interval [] (trades, tq, q) = (trades, tq, q)"
| "set_price_loop now sy interval (op # rest) (trades, tq, q) =
     (if sy = trade_op.symbol op then
        if now - stamp op \<le> interval then
          set_price_loop now sy interval rest
            (trades + 1,
             dadd tq (dmul (dint (quantity op)) (trade_op.price op)),
             dadd q (dint (quantity op)))
        else set_price_loop now sy interval rest (trades, tq, q)
      else set_price_loop now sy interval rest (trades, tq, q))"

text \<open>
  \<^verbatim>\<open>stock::set_price(interval)\<close>: reads the trade database \<open>db\<close>, may assign the member
  \<^verbatim>\<open>price\<close> of \<open>this\<close>, and returns the price. The result is the returned value together
  with the object after the call.
\<close>

definition set_price :: "time_t \<Rightarrow> trade_op list \<Rightarrow> time_t \<Rightarrow> stock \<Rightarrow> double \<times> stock" where
  "set_price now db interval this =
     (case set_price_loop now (stock.symbol this) interval db (0, dlit 0.0, dlit 0.0) of
        (trades, tq, q) \<Rightarrow>
          let this' = (if trades \<noteq> 0 then this\<lparr>stock.price := ddiv tq q\<rparr> else this)
          in (stock.price this', this'))"

text \<open>
  The call \<^verbatim>\<open>st->set_price(interval)\<close> on the entry at position \<open>i\<close> of \<^verbatim>\<open>gbce.list\<close>, as
  a transition of the whole state. An iterator of the program always points to an entry:
  the properties below take \<open>i\<close> smaller than the length of the list.
\<close>

definition set_price_at :: "time_t \<Rightarrow> nat \<Rightarrow> time_t \<Rightarrow> state \<Rightarrow> double \<times> state" where
  "set_price_at now i interval s =
     (case set_price now (trade_db s) interval (list (gbce s) ! i) of
        (r, this') \<Rightarrow> (r, s\<lparr>gbce := (gbce s)\<lparr>list := (list (gbce s))[i := this']\<rparr>\<rparr>))"

subsection \<open>Operations of the index\<close>

text \<open>\<^verbatim>\<open>the_index::exist\<close>: a linear search.\<close>

fun exist_loop :: "string \<Rightarrow> stock list \<Rightarrow> bool" where
  "exist_loop sy [] = False"
| "exist_loop sy (st # rest) =
     (if sy = get_symbol st then True else exist_loop sy rest)"

definition exist :: "the_index \<Rightarrow> string \<Rightarrow> bool" where
  "exist this sy = exist_loop sy (list this)"

text \<open>
  \<^verbatim>\<open>the_index::trade\<close>: checks the parameters, then appends a new record to the trade
  database. The result is the returned flag and the state after the call.
\<close>

definition trade :: "time_t \<Rightarrow> string \<Rightarrow> int \<Rightarrow> int \<Rightarrow> double \<Rightarrow> state \<Rightarrow> bool \<times> state" where
  "trade now sy op num pr s =
     (if sy = [] \<or> dlt pr (dint 0) \<or> num < 0 then (False, s)
      else (True, s\<lparr>trade_db := trade_db s @ [new_trade_op now sy op num pr]\<rparr>))"

text \<open>
  \<^verbatim>\<open>the_index::random_trade\<close>: \<open>r1\<close>, \<open>r2\<close> and \<open>r3\<close> are the results of the three calls of
  \<^verbatim>\<open>rand()\<close>, which are never negative. \<^verbatim>\<open>rand() & 1\<close> is the remainder of \<open>r1\<close> by 2. The
  function does not check its argument.
\<close>

definition random_trade :: "time_t \<Rightarrow> nat \<Rightarrow> nat \<Rightarrow> nat \<Rightarrow> string \<Rightarrow> state \<Rightarrow> state" where
  "random_trade now r1 r2 r3 sy s =
     s\<lparr>trade_db := trade_db s @
         [new_trade_op now sy
            (if r1 mod 2 \<noteq> 0 then BUY_STOCK else SELL_STOCK)
            (1 + int (r2 mod 109))
            (dadd (dlit 0.41) (ddiv (dint (int (r3 mod 299))) (dlit 100.0)))]\<rparr>"

text \<open>
  \<^verbatim>\<open>the_index::get_index\<close>: the loop over the entries, then the root. The C standard does
  not fix the accuracy of \<^verbatim>\<open>pow\<close>, so the function of the C library is the argument \<open>pow\<close>.
\<close>

fun get_index_loop :: "stock list \<Rightarrow> double \<Rightarrow> double" where
  "get_index_loop [] tmp = tmp"
| "get_index_loop (st # rest) tmp =
     (let num = get_price st
      in get_index_loop rest (if dtrue num then dmul tmp num else tmp))"

definition get_index :: "(double \<Rightarrow> double \<Rightarrow> double) \<Rightarrow> the_index \<Rightarrow> double" where
  "get_index pow this =
     (let tmp = get_index_loop (list this) (dlit 1.0);
          num = dint (int (length (list this)))
      in pow tmp (ddiv (dlit 1.00) num))"

text \<open>
  \<^verbatim>\<open>the_index::price\<close>: calls \<^verbatim>\<open>set_price(FIFTEEN_MINS)\<close> on every entry in turn. No entry's
  new price is read by a later call, which reads the trade database only.
\<close>

fun price_loop :: "time_t \<Rightarrow> trade_op list \<Rightarrow> stock list \<Rightarrow> stock list" where
  "price_loop now db [] = []"
| "price_loop now db (st # rest) =
     snd (set_price now db FIFTEEN_MINS st) # price_loop now db rest"

definition the_index_price :: "time_t \<Rightarrow> state \<Rightarrow> state" where
  "the_index_price now s =
     s\<lparr>gbce := (gbce s)\<lparr>list := price_loop now (trade_db s) (list (gbce s))\<rparr>\<rparr>"

subsection \<open>The command dispatcher\<close>

text \<open>
  The loop \<^verbatim>\<open>while (getline(f, s, ' ')) cmd.push_back(s)\<close>: \<^verbatim>\<open>getline\<close> reads up to the
  next space, which it drops, or up to the end of the line; it fails, and the loop ends,
  when it is called at the end of the line. \<open>acc\<close> holds the characters read by the
  current call, last character first.
\<close>

fun split_loop :: "string \<Rightarrow> string \<Rightarrow> string list" where
  "split_loop acc [] = (if acc = [] then [] else [rev acc])"
| "split_loop acc (c # cs) =
     (if c = CHR '' '' then rev acc # split_loop [] cs else split_loop (c # acc) cs)"

definition split_cmdline :: "string \<Rightarrow> string list" where
  "split_cmdline cmdline = split_loop [] cmdline"

text \<open>
  What one call of \<^verbatim>\<open>process_command\<close> takes from the C library: the clock, the results
  of the successive calls of \<^verbatim>\<open>rand()\<close>, and the conversions \<^verbatim>\<open>atoi\<close> and \<^verbatim>\<open>atof\<close>.
\<close>

record libc =
  time :: time_t
  rand :: "nat \<Rightarrow> nat"
  atoi :: "string \<Rightarrow> int"
  atof :: "string \<Rightarrow> double"

text \<open>
  \<^verbatim>\<open>process_command\<close>: the returned flag and the state after the call. The commands
  \<^verbatim>\<open>help\<close>, \<^verbatim>\<open>index\<close>, \<^verbatim>\<open>list\<close>, \<^verbatim>\<open>yield\<close> and \<^verbatim>\<open>pe\<close> only print, and so do the error
  branches. \<^verbatim>\<open>cmd[0].compare("sell")\<close> is not zero exactly when the first token is not
  \<^verbatim>\<open>sell\<close>. The \<^verbatim>\<open>trade\<close> command calls \<^verbatim>\<open>rand()\<close> fifteen times, three times in each
  \<^verbatim>\<open>random_trade\<close>; C++ does not fix the order of the three calls inside one argument
  list, and the model takes them from left to right.
\<close>

definition process_command :: "libc \<Rightarrow> string \<Rightarrow> state \<Rightarrow> bool \<times> state" where
  "process_command env cmdline s =
     (let cmd = split_cmdline cmdline in
      if length cmd > 0 then
        if cmd ! 0 = ''quit'' then (False, s)
        else if cmd ! 0 = ''help'' then (True, s)
        else if cmd ! 0 = ''index'' then (True, s)
        else if cmd ! 0 = ''trade'' then
          (True,
           random_trade (time env) (rand env 12) (rand env 13) (rand env 14) ''JOE''
            (random_trade (time env) (rand env 9) (rand env 10) (rand env 11) ''GIN''
              (random_trade (time env) (rand env 6) (rand env 7) (rand env 8) ''ALE''
                (random_trade (time env) (rand env 3) (rand env 4) (rand env 5) ''POP''
                  (random_trade (time env) (rand env 0) (rand env 1) (rand env 2) ''TEA'' s)))))
        else if cmd ! 0 = ''buy'' \<or> cmd ! 0 = ''sell'' then
          if length cmd > 3 then
            if \<not> exist (gbce s) (cmd ! 2) then (True, s)
            else
              let buy = (cmd ! 0 \<noteq> ''sell'');
                  qty = atoi env (cmd ! 1);
                  pr = atof env (cmd ! 3)
              in (True,
                  snd (trade (time env) (cmd ! 2) (if buy then BUY_STOCK else SELL_STOCK) qty pr s))
          else (True, s)
        else if cmd ! 0 = ''list'' then (True, s)
        else if cmd ! 0 = ''price'' then (True, the_index_price (time env) s)
        else if cmd ! 0 = ''yield'' then (True, s)
        else if cmd ! 0 = ''pe'' then (True, s)
        else (True, s)
      else (True, s))"

subsection \<open>Reachable states\<close>

text \<open>
  The states the program can be in: the startup state, and every state reached from a
  reachable one by recording a trade, by a random trade, or by recalculating the price of
  one entry or of all entries.
\<close>

inductive reachable :: "state \<Rightarrow> bool" where
  reachable_startup: "reachable startup"
| reachable_trade: "reachable s \<Longrightarrow> reachable (snd (trade now sy op num pr s))"
| reachable_random_trade: "reachable s \<Longrightarrow> reachable (random_trade now r1 r2 r3 sy s)"
| reachable_set_price:
    "reachable s \<Longrightarrow> i < length (list (gbce s)) \<Longrightarrow> reachable (snd (set_price_at now i interval s))"
| reachable_price: "reachable s \<Longrightarrow> reachable (the_index_price now s)"

subsection \<open>Notions of the specification\<close>

text \<open>
  The query \<open>trades_for(symbol, window)\<close> of the specification: the records of the trade
  database with the given symbol whose age, current time minus record time, is at most
  the window. The program has no such function; \<^verbatim>\<open>set_price\<close> tests every record inside
  its loop.
\<close>

definition trades_for :: "string \<Rightarrow> time_t \<Rightarrow> time_t \<Rightarrow> trade_op list \<Rightarrow> trade_op list" where
  "trades_for sy window now db =
     filter (\<lambda>op. trade_op.symbol op = sy \<and> now - stamp op \<le> window) db"

text \<open>Sums and products of doubles, taken from left to right.\<close>

definition dsum :: "double list \<Rightarrow> double" where
  "dsum xs = foldl dadd (Fin 0) xs"

definition dprod :: "double list \<Rightarrow> double" where
  "dprod xs = foldl dmul (Fin 1) xs"

text \<open>
  A real number is exact when it is a double: rounding does not change it. A list of
  numbers has exact sums from \<open>a\<close> when every partial sum, added from left to right
  starting at \<open>a\<close>, is exact; likewise for the products.
\<close>

definition exact :: "real \<Rightarrow> bool" where
  "exact x = (round_double x = Fin x)"

fun exact_sums :: "real \<Rightarrow> real list \<Rightarrow> bool" where
  "exact_sums a [] = True"
| "exact_sums a (x # xs) = (exact (a + x) \<and> exact_sums (a + x) xs)"

fun exact_products :: "real \<Rightarrow> real list \<Rightarrow> bool" where
  "exact_products a [] = True"
| "exact_products a (x # xs) = (exact (a * x) \<and> exact_products (a * x) xs)"

text \<open>
  The volume-weighted average price of a list of trades, in double arithmetic: the sum of
  quantity times price divided by the sum of the quantities.
\<close>

definition volume_weighted_average :: "trade_op list \<Rightarrow> double" where
  "volume_weighted_average ms =
     ddiv (dsum (map (\<lambda>op. dmul (dint (quantity op)) (trade_op.price op)) ms))
          (dsum (map (\<lambda>op. dint (quantity op)) ms))"

text \<open>
  The first whitespace-separated token of a line, as the specification describes the
  tokens of a command: the first maximal run of characters that are not whitespace
  (\<^verbatim>\<open>isspace\<close> of the C locale), empty when the line has none.
\<close>

definition isspace :: "char \<Rightarrow> bool" where
  "isspace c = (c \<in> {CHR '' '', CHR 0x09, CHR 0x0A, CHR 0x0B, CHR 0x0C, CHR 0x0D})"

definition first_whitespace_token :: "string \<Rightarrow> string" where
  "first_whitespace_token cmdline = takeWhile (\<lambda>c. \<not> isspace c) (dropWhile isspace cmdline)"

subsection \<open>An invariant of the reachable states\<close>

text \<open>
  A double is not negative when \<^verbatim>\<open>x < 0\<close> is false: it is a finite number from zero
  upwards, the positive infinity or a NaN.
\<close>

definition not_negative :: "double \<Rightarrow> bool" where
  "not_negative x = (\<not> dlt x (Fin 0))"

text \<open>What \<^verbatim>\<open>the_index::trade\<close> checks of a record, the symbol apart.\<close>

definition trade_ok :: "trade_op \<Rightarrow> bool" where
  "trade_ok op = (0 \<le> quantity op \<and> not_negative (trade_op.price op))"

text \<open>The members of a stock entry that no member function assigns.\<close>

definition fixed_fields :: "stock \<Rightarrow> string \<times> int \<times> double \<times> double \<times> double" where
  "fixed_fields st = (stock.symbol st, type st, last_dividend st, fixed_dividend st, par_value st)"

definition state_inv :: "state \<Rightarrow> bool" where
  "state_inv s =
     (list_all trade_ok (trade_db s) \<and>
      list_all (\<lambda>st. not_negative (stock.price st)) (list (gbce s)) \<and>
      map fixed_fields (list (gbce s)) = map fixed_fields (list new_the_index))"

subsection \<open>Example inputs\<close>

text \<open>
  A trade database with two trades of ALE inside a window of 900 seconds at time 1500,
  one trade of ALE outside of it, and one trade of TEA.
\<close>

definition example_db :: "trade_op list" where
  "example_db =
     [ \<lparr>stamp = 1000, symbol = ''ALE'', operation = BUY_STOCK, quantity = 10, price = Fin 2.0\<rparr>,
       \<lparr>stamp = 1000, symbol = ''TEA'', operation = BUY_STOCK, quantity = 7, price = Fin 9.0\<rparr>,
       \<lparr>stamp = 50, symbol = ''ALE'', operation = SELL_STOCK, quantity = 5, price = Fin 1.0\<rparr>,
       \<lparr>stamp = 1200, symbol = ''ALE'', operation = SELL_STOCK, quantity = 20, price = Fin 3.0\<rparr> ]"

text \<open>
  The index with the prices 1, 2, 4, 8 and 16, and the index with the prices 0, 1, 4, 4
  and 64.
\<close>

definition example_index :: the_index where
  "example_index =
     \<lparr> list =
         [ (new_stock ''TEA'' COMMON_STOCK (dlit 0.00) (dint 0) (dlit 1.00))\<lparr>stock.price := Fin 1\<rparr>,
           (new_stock ''POP'' COMMON_STOCK (dlit 0.08) (dint 0) (dlit 1.00))\<lparr>stock.price := Fin 2\<rparr>,
           (new_stock ''ALE'' COMMON_STOCK (dlit 0.23) (dint 0) (dlit 0.60))\<lparr>stock.price := Fin 4\<rparr>,
           (new_stock ''GIN'' PREF_STOCK (dlit 0.08) (dint 2) (dlit 1.00))\<lparr>stock.price := Fin 8\<rparr>,
           (new_stock ''JOE'' COMMON_STOCK (dlit 0.13) (dint 0) (dlit 2.50))\<lparr>stock.price := Fin 16\<rparr> ] \<rparr>"

definition example_index_zero :: the_index where
  "example_index_zero =
     \<lparr> list =
         [ (new_stock ''TEA'' COMMON_STOCK (dlit 0.00) (dint 0) (dlit 1.00))\<lparr>stock.price := Fin 0\<rparr>,
           (new_stock ''POP'' COMMON_STOCK (dlit 0.08) (dint 0) (dlit 1.00))\<lparr>stock.price := Fin 1\<rparr>,
           (new_stock ''ALE'' COMMON_STOCK (dlit 0.23) (dint 0) (dlit 0.60))\<lparr>stock.price := Fin 4\<rparr>,
           (new_stock ''GIN'' PREF_STOCK (dlit 0.08) (dint 2) (dlit 1.00))\<lparr>stock.price := Fin 4\<rparr>,
           (new_stock ''JOE'' COMMON_STOCK (dlit 0.13) (dint 0) (dlit 2.50))\<lparr>stock.price := Fin 64\<rparr> ] \<rparr>"

text \<open>
  A \<^verbatim>\<open>pow\<close> for the examples: the special cases of C99 (F.9.4.4), among them \<open>1\<close> when
  \<open>y\<close> is zero or \<open>x\<close> is \<open>1\<close>, even for a NaN on the other side, and a NaN for a negative
  finite base with an exponent that is not an integer; otherwise the power, correctly
  rounded.
\<close>

definition odd_integer :: "real \<Rightarrow> bool" where
  "odd_integer y = (y = of_int \<lfloor>y\<rfloor> \<and> odd \<lfloor>y\<rfloor>)"

fun pow_rounded :: "double \<Rightarrow> double \<Rightarrow> double" where
  "pow_rounded x (Fin y) =
     (if y = 0 then Fin 1
      else case x of
        NaN \<Rightarrow> NaN
      | PInf \<Rightarrow> if y < 0 then Fin 0 else PInf
      | NInf \<Rightarrow> if y < 0 then Fin 0 else if odd_integer y then NInf else PInf
      | Fin a \<Rightarrow>
          if a = 0 then (if y < 0 then PInf else Fin 0)
          else if 0 < a then round_double (a powr y)
          else if y = of_int \<lfloor>y\<rfloor> then round_double (a powi \<lfloor>y\<rfloor>)
          else NaN)"
| "pow_rounded x PInf =
     (case x of
        NaN \<Rightarrow> NaN
      | Fin a \<Rightarrow> if \<bar>a\<bar> = 1 then Fin 1 else if \<bar>a\<bar> < 1 then Fin 0 else PInf
      | _ \<Rightarrow> PInf)"
| "pow_rounded x NInf =
     (case x of
        NaN \<Rightarrow> NaN
      | Fin a \<Rightarrow> if \<bar>a\<bar> = 1 then Fin 1 else if \<bar>a\<bar> < 1 then PInf else Fin 0
      | _ \<Rightarrow> Fin 0)"
| "pow_rounded x NaN = (if x = Fin 1 then Fin 1 else NaN)"

text \<open>
  The state after \<^verbatim>\<open>trade("TEA", BUY_STOCK, 1, 0.0)\<close> and \<^verbatim>\<open>price()\<close>, and the state after
  \<^verbatim>\<open>trade("TEA", BUY_STOCK, 0, 1.0)\<close>, both from startup at time 100.
\<close>

definition zero_price_state :: state where
  "zero_price_state = the_index_price 100 (snd (trade 100 ''TEA'' BUY_STOCK 1 (Fin 0) startup))"

definition zero_quantity_state :: state where
  "zero_quantity_state = snd (trade 100 ''TEA'' BUY_STOCK 0 (Fin 1.0) startup)"

text \<open>
  A C library for the examples: the clock shows 100, the \<open>n\<close>-th call of \<^verbatim>\<open>rand()\<close>
  returns \<open>n\<close>, and \<^verbatim>\<open>atoi\<close> and \<^verbatim>\<open>atof\<close> are tables with the values of the C functions on
  the two numbers of the examples, \<^verbatim>\<open>"5"\<close> and \<^verbatim>\<open>"3.00"\<close>, and with 0, the value of the C
  functions on a string that does not start with a number, elsewhere.
\<close>

definition example_libc :: libc where
  "example_libc =
     \<lparr> time = 100,
       rand = (\<lambda>n. n),
       atoi = (\<lambda>str. if str = ''5'' then 5 else if str = ''3.00'' then 3 else 0),
       atof = (\<lambda>str. if str = ''3.00'' then Fin 3.00 else if str = ''5'' then Fin 5.0 else Fin 0.0) \<rparr>"

section \<open>Properties\<close>

subsection \<open>Rounding\<close>

text \<open>The nearest integer of an integer is the integer, and it is never below the floor.\<close>

lemma round_half_even_of_int [simp]: "round_half_even (of_int j) = j"
  by (simp add: round_half_even_def)

lemma round_half_even_ge_floor: "\<lfloor>m\<rfloor> \<le> round_half_even m"
  by (simp add: round_half_even_def Let_def)

text \<open>The exponent of a positive number.\<close>

lemma two_powr_int: "(2::real) powr real_of_int k = 2 powi k"
  by (simp add: powr_real_of_int')

lemma two_powr_int_Suc: "(2::real) powr (real_of_int k + 1) = 2 powi (k + 1)"
  using two_powr_int [of "k + 1"] by simp

lemma floor_log2_eq:
  assumes "2 powi k \<le> x" and "x < 2 powi (k + 1)"
  shows "\<lfloor>log 2 x\<rfloor> = k"
proof -
  have "(0::real) < 2 powi k"
    by simp
  then have pos: "0 < x"
    using assms(1) by linarith
  show ?thesis
    using assms pos by (simp add: floor_log_eq_powr_iff two_powr_int two_powr_int_Suc)
qed

lemma floor_log2_bounds:
  assumes "0 < x"
  shows "2 powi \<lfloor>log 2 x\<rfloor> \<le> x \<and> x < 2 powi (\<lfloor>log 2 x\<rfloor> + 1)"
  using assms floor_log_eq_powr_iff [of x 2 "\<lfloor>log 2 x\<rfloor>"]
  by (simp add: two_powr_int two_powr_int_Suc)

text \<open>The rounded value is never of the other sign.\<close>

lemma round_double_nonneg:
  assumes "0 \<le> x"
  shows "round_double x = PInf \<or> (\<exists>y\<ge>0. round_double x = Fin y)"
proof (cases "x = 0")
  case True
  then show ?thesis by (simp add: round_double_def)
next
  case False
  define e where "e = max (\<lfloor>log 2 \<bar>x\<bar>\<rfloor> - 52) (- 1074)"
  have "0 \<le> x / 2 powi e"
    using assms by simp
  then have "0 \<le> \<lfloor>x / 2 powi e\<rfloor>"
    by simp
  then have "0 \<le> round_half_even (x / 2 powi e)"
    using round_half_even_ge_floor [of "x / 2 powi e"] by linarith
  then have "0 \<le> real_of_int (round_half_even (x / 2 powi e)) * 2 powi e"
    by simp
  then show ?thesis
    using False assms by (auto simp add: round_double_def Let_def e_def)
qed

lemma round_double_pos:
  assumes "2 powi (- 1074) \<le> x"
  shows "round_double x = PInf \<or> (\<exists>y>0. round_double x = Fin y)"
proof -
  have "(0::real) < 2 powi (- 1074)"
    by simp
  then have pos: "0 < x"
    using assms by linarith
  define k where "k = \<lfloor>log 2 \<bar>x\<bar>\<rfloor>"
  define e where "e = max (k - 52) (- 1074)"
  have lo: "2 powi k \<le> x"
    using floor_log2_bounds [OF pos] pos by (simp add: k_def)
  have "1 \<le> x / 2 powi e"
  proof (cases "k - 52 \<le> - 1074")
    case True
    then have "e = - 1074" by (simp add: e_def)
    then show ?thesis using assms by (simp add: field_simps)
  next
    case False
    then have e: "e = k - 52" by (simp add: e_def)
    have "(2::real) powi e \<le> 2 powi k"
      unfolding e by (intro power_int_increasing) simp_all
    then have "2 powi e \<le> x"
      using lo by linarith
    then show ?thesis by (simp add: field_simps)
  qed
  then have "1 \<le> \<lfloor>x / 2 powi e\<rfloor>"
    by simp
  then have "1 \<le> round_half_even (x / 2 powi e)"
    using round_half_even_ge_floor [of "x / 2 powi e"] by linarith
  then have "0 < real_of_int (round_half_even (x / 2 powi e)) * 2 powi e"
    by simp
  then show ?thesis
    using pos by (auto simp add: round_double_def Let_def e_def k_def)
qed

text \<open>Numbers with a significand of 53 bits and an exponent in range are not changed.\<close>

lemma round_double_exact:
  assumes "x = of_int m * 2 powi e" and "\<bar>m\<bar> < 2 ^ 53" and "- 1074 \<le> e" and "e \<le> 971"
  shows "round_double x = Fin x"
proof (cases "x = 0")
  case True
  then show ?thesis by (simp add: round_double_def)
next
  case False
  then have m0: "m \<noteq> 0"
    using assms(1) by auto
  define k where "k = \<lfloor>log 2 \<bar>x\<bar>\<rfloor>"
  define d where "d = max (k - 52) (- 1074)"
  have ax: "\<bar>x\<bar> = of_int \<bar>m\<bar> * 2 powi e"
    using assms(1) by (simp add: abs_mult)
  have "real_of_int \<bar>m\<bar> < 2 ^ 53"
    using assms(2) by (metis of_int_less_numeral_power_cancel_iff)
  then have "\<bar>x\<bar> < 2 ^ 53 * 2 powi e"
    unfolding ax by (intro mult_strict_right_mono) simp_all
  also have "\<dots> = 2 powi (e + 53)"
    by (simp add: power_int_add)
  finally have up: "\<bar>x\<bar> < 2 powi (e + 53)" .
  have "2 powi k \<le> \<bar>x\<bar>"
    using floor_log2_bounds [of "\<bar>x\<bar>"] False by (simp add: k_def)
  with up have "(2::real) powi k < 2 powi (e + 53)"
    by linarith
  then have "k < e + 53"
  proof -
    assume lt: "(2::real) powi k < 2 powi (e + 53)"
    show "k < e + 53"
    proof (rule ccontr)
      assume "\<not> k < e + 53"
      then have "e + 53 \<le> k" by simp
      then have "(2::real) powi (e + 53) \<le> 2 powi k"
        by (intro power_int_increasing) simp_all
      with lt show False by linarith
    qed
  qed
  then have de: "d \<le> e"
    using assms(3) by (simp add: d_def)
  have "x / 2 powi d = of_int m * 2 powi (e - d)"
    using assms(1) by (simp add: power_int_diff)
  also have "\<dots> = of_int (m * 2 ^ nat (e - d))"
    using de by (simp add: power_int_def)
  finally have q: "x / 2 powi d = of_int (m * 2 ^ nat (e - d))" .
  have y: "real_of_int (round_half_even (x / 2 powi d)) * 2 powi d = x"
    unfolding q round_half_even_of_int using q by (simp add: field_simps)
  have "\<bar>x\<bar> < 2 powi (e + 53)"
    by (rule up)
  also have "\<dots> \<le> 2 powi 1024"
    using assms(4) by (intro power_int_increasing) simp_all
  finally have "\<bar>x\<bar> < 2 ^ 1024"
    by simp
  then show ?thesis
    using False y by (simp add: round_double_def Let_def d_def k_def)
qed

lemma round_double_of_int: "\<bar>n\<bar> < 2 ^ 53 \<Longrightarrow> round_double (of_int n) = Fin (of_int n)"
  using round_double_exact [of "of_int n" n 0] by simp

text \<open>Bounds of the nearest integer.\<close>

lemma round_half_even_le_ceiling: "round_half_even m \<le> \<lceil>m\<rceil>"
proof (cases "m = of_int \<lfloor>m\<rfloor>")
  case True
  then have "round_half_even m = \<lfloor>m\<rfloor>"
    by (metis round_half_even_of_int)
  then show ?thesis
    by (simp add: floor_le_ceiling)
next
  case False
  then have "\<lceil>m\<rceil> = \<lfloor>m\<rfloor> + 1"
    by (simp add: ceiling_altdef)
  then show ?thesis
    by (simp add: round_half_even_def Let_def)
qed

lemma round_half_even_abs_le:
  assumes "\<bar>m\<bar> \<le> of_int N"
  shows "\<bar>round_half_even m\<bar> \<le> N"
proof -
  have "- N \<le> \<lfloor>m\<rfloor>" and "\<lceil>m\<rceil> \<le> N"
    using assms by (simp_all add: le_floor_iff ceiling_le_iff abs_le_iff)
  then show ?thesis
    using round_half_even_ge_floor [of m] round_half_even_le_ceiling [of m] by linarith
qed

lemma round_half_even_near:
  assumes "of_int f \<le> m" and "m \<le> of_int f + 1 / 2" and "even f"
  shows "round_half_even m = f"
proof -
  have "\<lfloor>m\<rfloor> = f"
    using assms(1,2) by linarith
  then show ?thesis
    using assms by (simp add: round_half_even_def Let_def)
qed

text \<open>The rounding of a number of the normal range, with its exponent given.\<close>

lemma round_double_eval:
  assumes "2 powi k \<le> \<bar>x\<bar>" and "\<bar>x\<bar> < 2 powi (k + 1)" and "- 1022 \<le> k" and "k < 1023"
  shows "round_double x = Fin (of_int (round_half_even (x / 2 powi (k - 52))) * 2 powi (k - 52))"
proof -
  have "(0::real) < 2 powi k"
    by simp
  then have "0 < \<bar>x\<bar>"
    using assms(1) by linarith
  then have x0: "x \<noteq> 0"
    by simp
  have k: "\<lfloor>log 2 \<bar>x\<bar>\<rfloor> = k"
    using assms(1,2) by (rule floor_log2_eq)
  have e: "max (k - 52) (- 1074) = k - 52"
    using assms(3) by simp
  have "\<bar>x / 2 powi (k - 52)\<bar> = \<bar>x\<bar> / 2 powi (k - 52)"
    by (simp add: abs_divide)
  also have "\<dots> \<le> 2 powi (k + 1) / 2 powi (k - 52)"
    using assms(2) by (intro divide_right_mono) simp_all
  also have "\<dots> = 2 powi 53"
    by (simp add: power_int_diff [symmetric])
  finally have "\<bar>x / 2 powi (k - 52)\<bar> \<le> of_int (2 ^ 53)"
    by simp
  then have "\<bar>round_half_even (x / 2 powi (k - 52))\<bar> \<le> 2 ^ 53"
    by (rule round_half_even_abs_le)
  then have "real_of_int \<bar>round_half_even (x / 2 powi (k - 52))\<bar> \<le> 2 ^ 53"
    by (metis of_int_le_numeral_power_cancel_iff)
  then have "\<bar>real_of_int (round_half_even (x / 2 powi (k - 52))) * 2 powi (k - 52)\<bar> \<le> 2 ^ 53 * 2 powi (k - 52)"
    by (simp add: abs_mult)
  also have "\<dots> = 2 powi (k + 1)"
    using power_int_add [of "2::real" 53 "k - 52"] by (simp add: add.commute)
  also have "\<dots> \<le> 2 powi 1023"
    using assms(4) by (intro power_int_increasing) simp_all
  also have "\<dots> < 2 powi 1024"
    by (intro power_int_strict_increasing) simp_all
  finally have "\<bar>real_of_int (round_half_even (x / 2 powi (k - 52))) * 2 powi (k - 52)\<bar> < 2 ^ 1024"
    by simp
  then show ?thesis
    using x0 by (simp add: round_double_def Let_def k e)
qed

text \<open>The doubles nearest to 1/5 and to 8/3.\<close>

lemma round_double_fifth: "round_double (1 / 5) = Fin (3602879701896397 / 2 ^ 54)"
proof -
  have "round_half_even (36028797018963968 / 5) = 7205759403792794"
    by (simp add: round_half_even_def Let_def)
  then show ?thesis
    using round_double_eval [of "- 3" "1 / 5"] by (simp add: power_int_minus)
qed

lemma round_double_eight_thirds: "round_double (8 / 3) = Fin (6004799503160661 / 2 ^ 51)"
proof -
  have "round_half_even (18014398509481984 / 3) = 6004799503160661"
    by (simp add: round_half_even_def Let_def)
  then show ?thesis
    using round_double_eval [of 1 "8 / 3"] by (simp add: power_int_minus)
qed

text \<open>
  The power of 1024 to the double nearest to 1/5 is \<open>4 * 2 powr (1 / 2 ^ 53)\<close>, which is
  nearer to 4 than to the next double.
\<close>

lemma two_powr_small: "2 powr (1 / 2 ^ 53) \<le> 1 + 1 / (2 ^ 53 :: real)"
proof -
  define n :: nat where "n = 2 ^ 53"
  define t :: real where "t = 1 / 2 ^ 53"
  have nt: "real n * t = 1"
    by (simp add: n_def t_def)
  have "1 + real n * t \<le> (1 + t) ^ n"
    by (rule Bernoulli_inequality) (simp add: t_def)
  then have "2 \<le> (1 + t) ^ n"
    using nt by simp
  also have "\<dots> = (1 + t) powr real n"
    by (simp add: powr_realpow t_def)
  finally have "2 powr t \<le> ((1 + t) powr real n) powr t"
    by (intro powr_mono2) (simp_all add: t_def)
  also have "\<dots> = (1 + t) powr (real n * t)"
    by (simp add: powr_powr)
  also have "\<dots> = 1 + t"
    using nt by (simp add: t_def)
  finally show ?thesis
    by (simp add: t_def)
qed

lemma pow_1024_fifth:
  "round_double (1024 powr (3602879701896397 / 2 ^ 54)) = Fin 4"
proof -
  define w :: real where "w = 2 powr (1 / 2 ^ 53)"
  define v :: real where "v = 1024 powr (3602879701896397 / 2 ^ 54)"
  have "(1024::real) = 2 powr 10"
    by simp
  then have "v = 2 powr (10 * (3602879701896397 / 2 ^ 54))"
    unfolding v_def by (simp only: powr_powr)
  also have "10 * (3602879701896397 / 2 ^ 54) = 2 + 1 / (2 ^ 53 :: real)"
    by simp
  finally have "v = 2 powr (2 + 1 / (2 ^ 53 :: real))" .
  also have "\<dots> = 2 powr 2 * 2 powr (1 / 2 ^ 53)"
    by (rule powr_add)
  also have "(2::real) powr 2 = 4"
    by simp
  finally have v: "v = 4 * w"
    by (simp only: w_def)
  have w1: "1 \<le> w"
    unfolding w_def by (rule ge_one_powr_ge_zero) simp_all
  have w2: "w \<le> 1 + 1 / 2 ^ 53"
    unfolding w_def by (rule two_powr_small)
  have lo: "2 powi 2 \<le> \<bar>v\<bar>" and hi: "\<bar>v\<bar> < 2 powi (2 + 1)"
    using w1 w2 by (simp_all add: v)
  have "round_half_even (v / 2 powi (2 - 52)) = 2 ^ 52"
  proof (rule round_half_even_near)
    show "real_of_int (2 ^ 52) \<le> v / 2 powi (2 - 52)"
      using w1 by (simp add: v power_int_minus field_simps)
    show "v / 2 powi (2 - 52) \<le> real_of_int (2 ^ 52) + 1 / 2"
      using w2 by (simp add: v power_int_minus field_simps)
    show "even (2 ^ 52 :: int)"
      by simp
  qed
  then have "round_double v = Fin 4"
    using round_double_eval [OF lo hi] by (simp add: power_int_minus)
  then show ?thesis
    by (simp add: v_def)
qed

text \<open>A number of magnitude \<open>2 ^ 1024\<close> or more overflows to an infinity.\<close>

lemma round_double_overflow:
  assumes "2 ^ 1024 \<le> \<bar>x\<bar>"
  shows "round_double x = (if 0 < x then PInf else NInf)"
proof -
  define k where "k = \<lfloor>log 2 \<bar>x\<bar>\<rfloor>"
  define e where "e = max (k - 52) (- 1074)"
  have "(0::real) < 2 ^ 1024"
    by simp
  then have x0: "0 < \<bar>x\<bar>"
    using assms by linarith
  have lo: "2 powi k \<le> \<bar>x\<bar>" and hi: "\<bar>x\<bar> < 2 powi (k + 1)"
    using floor_log2_bounds [OF x0] by (simp_all add: k_def)
  have "(2::real) powi 1024 < 2 powi (k + 1)"
    using assms hi by simp
  then have "1024 < k + 1"
  proof -
    assume lt: "(2::real) powi 1024 < 2 powi (k + 1)"
    show "1024 < k + 1"
    proof (rule ccontr)
      assume "\<not> 1024 < k + 1"
      then have "k + 1 \<le> 1024" by simp
      then have "(2::real) powi (k + 1) \<le> 2 powi 1024"
        by (intro power_int_increasing) simp_all
      with lt show False by linarith
    qed
  qed
  then have k: "1024 \<le> k" and e: "e = k - 52"
    by (simp_all add: e_def)
  have "2 powi k / 2 powi e \<le> \<bar>x\<bar> / 2 powi e"
    using lo by (intro divide_right_mono) simp_all
  moreover have "(2::real) powi k / 2 powi e = of_int (2 ^ 52)"
    by (simp add: e power_int_diff [symmetric])
  ultimately have m: "of_int (2 ^ 52) \<le> \<bar>x / 2 powi e\<bar>"
    by (simp add: abs_divide)
  have "2 ^ 52 \<le> \<bar>round_half_even (x / 2 powi e)\<bar>"
  proof (cases "0 \<le> x / 2 powi e")
    case True
    then have "2 ^ 52 \<le> \<lfloor>x / 2 powi e\<rfloor>"
      using m by (simp add: le_floor_iff)
    then show ?thesis
      using round_half_even_ge_floor [of "x / 2 powi e"] by linarith
  next
    case False
    then have "\<lceil>x / 2 powi e\<rceil> \<le> - (2 ^ 52)"
      using m by (simp add: ceiling_le_iff)
    then show ?thesis
      using round_half_even_le_ceiling [of "x / 2 powi e"] by linarith
  qed
  then have "real_of_int (2 ^ 52) \<le> real_of_int \<bar>round_half_even (x / 2 powi e)\<bar>"
    by (rule of_int_le_iff [THEN iffD2])
  then have "2 ^ 52 * 2 powi e \<le> \<bar>real_of_int (round_half_even (x / 2 powi e)) * 2 powi e\<bar>"
    by (simp add: abs_mult)
  moreover have "(2::real) ^ 52 * 2 powi e = 2 powi k"
    using power_int_add [of "2::real" 52 e] by (simp add: e)
  moreover have "(2::real) powi 1024 \<le> 2 powi k"
    using k by (intro power_int_increasing) simp_all
  ultimately have "2 ^ 1024 \<le> \<bar>real_of_int (round_half_even (x / 2 powi e)) * 2 powi e\<bar>"
    by simp
  then show ?thesis
    using x0 by (simp add: round_double_def Let_def e_def k_def)
qed

text \<open>Small integers, and the literals 0 and 1, are exact.\<close>

lemma round_double_0 [simp]: "round_double 0 = Fin 0"
  by (simp add: round_double_def)

lemma round_double_1 [simp]: "round_double 1 = Fin 1"
  using round_double_of_int [of 1] by simp

lemma round_double_numeral [simp]:
  "(numeral w :: int) < 2 ^ 53 \<Longrightarrow> round_double (numeral w) = Fin (numeral w)"
  using round_double_of_int [of "numeral w"] by simp

lemma dint_0 [simp]: "dint 0 = Fin 0"
  by (simp add: dint_def)

lemma dint_1 [simp]: "dint 1 = Fin 1"
  by (simp add: dint_def)

lemma dint_numeral [simp]: "(numeral w :: int) < 2 ^ 53 \<Longrightarrow> dint (numeral w) = Fin (numeral w)"
  by (simp add: dint_def)

lemma dlit_0 [simp]: "dlit 0 = Fin 0"
  by (simp add: dlit_def)

lemma dlit_1 [simp]: "dlit 1 = Fin 1"
  by (simp add: dlit_def)

lemma dlit_numeral [simp]: "(numeral w :: int) < 2 ^ 53 \<Longrightarrow> dlit (numeral w) = Fin (numeral w)"
  by (simp add: dlit_def)

lemma exact_of_int: "\<bar>n\<bar> < 2 ^ 53 \<Longrightarrow> exact (of_int n)"
  by (simp add: exact_def round_double_of_int)

text \<open>The product of 2 and \<open>2 ^ 1023\<close> overflows.\<close>

lemma overflow_example:
  "dmul (dint 2) (Fin (2 ^ 1023)) = PInf"
  using round_double_overflow [of "2 * 2 ^ 1023"] by simp

subsection \<open>Dividend yield and P/E ratio\<close>

text \<open>Every constructed stock entry is common or preferred.\<close>

lemma new_stock_type:
  "type (new_stock sy ty ld fd pv) = COMMON_STOCK \<or> type (new_stock sy ty ld fd pv) = PREF_STOCK"
  by (simp add: new_stock_def)

text \<open>The halves and quarters of the examples are exact.\<close>

lemma round_double_half [simp]: "round_double (1 / 2) = Fin (1 / 2)"
  using round_double_exact [of "1 / 2" 1 "- 1"] by (simp add: power_int_minus)

text \<open>
  Claim C5. For a stock entry of type common, \<^verbatim>\<open>get_dividend_yield\<close> returns the last
  dividend divided by the current price; for a preferred one, the fixed dividend divided
  by the current price; for any other type, 0. With finite operands and a nonzero price
  the result is the double nearest to the quotient.
\<close>

theorem get_dividend_yield_by_type:
  "(type this = COMMON_STOCK \<longrightarrow>
      get_dividend_yield this = ddiv (last_dividend this) (stock.price this)) \<and>
   (type this = PREF_STOCK \<longrightarrow>
      get_dividend_yield this = ddiv (fixed_dividend this) (stock.price this)) \<and>
   (type this \<noteq> COMMON_STOCK \<and> type this \<noteq> PREF_STOCK \<longrightarrow> get_dividend_yield this = Fin 0) \<and>
   (type this = COMMON_STOCK \<and> last_dividend this = Fin d \<and> stock.price this = Fin p \<and> p \<noteq> 0 \<longrightarrow>
      get_dividend_yield this = round_double (d / p)) \<and>
   (type this = PREF_STOCK \<and> fixed_dividend this = Fin f \<and> stock.price this = Fin p \<and> p \<noteq> 0 \<longrightarrow>
      get_dividend_yield this = round_double (f / p))"
  by (simp add: get_dividend_yield_def COMMON_STOCK_def PREF_STOCK_def)

theorem get_dividend_yield_by_type_witness:
  "get_dividend_yield (new_stock ''ALE'' COMMON_STOCK (Fin 1) (Fin 0) (Fin 2)) = Fin (1 / 2) \<and>
   get_dividend_yield (new_stock ''GIN'' PREF_STOCK (Fin 8) (Fin 2) (Fin 1)) = Fin 2 \<and>
   get_dividend_yield (new_stock ''POP'' COMMON_STOCK (dlit 0.08) (dint 0) (dlit 1.00)) =
     ddiv (dlit 0.08) (Fin 1) \<and>
   get_dividend_yield ((new_stock ''GIN'' PREF_STOCK (Fin 8) (Fin 2) (Fin 1))\<lparr>type := 7\<rparr>) = Fin 0"
  using get_dividend_yield_by_type [of "new_stock ''ALE'' COMMON_STOCK (Fin 1) (Fin 0) (Fin 2)" 1 2 0]
    get_dividend_yield_by_type [of "new_stock ''GIN'' PREF_STOCK (Fin 8) (Fin 2) (Fin 1)" 8 1 2]
    get_dividend_yield_by_type [of "new_stock ''POP'' COMMON_STOCK (dlit 0.08) (dint 0) (dlit 1.00)" 0 1 0]
    get_dividend_yield_by_type [of "(new_stock ''GIN'' PREF_STOCK (Fin 8) (Fin 2) (Fin 1))\<lparr>type := 7\<rparr>" 8 1 2]
  by (simp add: new_stock_def COMMON_STOCK_def PREF_STOCK_def)

text \<open>
  Claim C6. \<^verbatim>\<open>get_pe_ratio\<close> returns the current price divided by the last dividend when
  the last dividend is not zero, and 0 when it is zero. With finite operands the result
  is the double nearest to the quotient.
\<close>

theorem get_pe_ratio_cases:
  "(last_dividend this \<noteq> Fin 0 \<longrightarrow>
      get_pe_ratio this = ddiv (stock.price this) (last_dividend this)) \<and>
   (last_dividend this = Fin 0 \<longrightarrow> get_pe_ratio this = Fin 0) \<and>
   (last_dividend this = Fin d \<and> d \<noteq> 0 \<and> stock.price this = Fin p \<longrightarrow>
      get_pe_ratio this = round_double (p / d))"
  by (simp add: get_pe_ratio_def dtrue_def)

theorem get_pe_ratio_cases_witness:
  "get_pe_ratio (new_stock ''JOE'' COMMON_STOCK (Fin 2) (Fin 0) (Fin 1)) = Fin (1 / 2) \<and>
   get_pe_ratio (new_stock ''JOE'' COMMON_STOCK (Fin 1) (Fin 0) (Fin 3)) = Fin 3 \<and>
   get_pe_ratio (new_stock ''TEA'' COMMON_STOCK (dlit 0.00) (dint 0) (dlit 1.00)) = Fin 0"
  using get_pe_ratio_cases [of "new_stock ''JOE'' COMMON_STOCK (Fin 2) (Fin 0) (Fin 1)" 2 1]
    get_pe_ratio_cases [of "new_stock ''JOE'' COMMON_STOCK (Fin 1) (Fin 0) (Fin 3)" 1 3]
    get_pe_ratio_cases [of "new_stock ''TEA'' COMMON_STOCK (dlit 0.00) (dint 0) (dlit 1.00)" 0 1]
  by (simp add: new_stock_def)

subsection \<open>Recording a trade\<close>

text \<open>
  Claim C4. \<^verbatim>\<open>trade(symbol, op, num, price)\<close> fails exactly when the symbol is empty,
  the quantity is negative or the price is negative. When it fails the state, and with it
  the trade database, is unchanged. When it succeeds the state differs only in one record
  appended to the end of the trade database: the record carries the clock value, the
  symbol, the quantity, the price, and the side, which is the given one when that is a
  buy or a sell.
\<close>

theorem trade_checks_then_appends:
  "(\<not> fst (trade now sy op num pr s) \<longleftrightarrow> sy = [] \<or> num < 0 \<or> dlt pr (Fin 0)) \<and>
   (\<not> fst (trade now sy op num pr s) \<longrightarrow> snd (trade now sy op num pr s) = s) \<and>
   (fst (trade now sy op num pr s) \<longrightarrow>
      snd (trade now sy op num pr s) =
        s\<lparr>trade_db := trade_db s @
            [\<lparr>stamp = now, symbol = sy,
              operation = (if op = BUY_STOCK then BUY_STOCK else SELL_STOCK),
              quantity = num, price = pr\<rparr>]\<rparr>) \<and>
   (fst (trade now sy op num pr s) \<and> (op = BUY_STOCK \<or> op = SELL_STOCK) \<longrightarrow>
      trade_db (snd (trade now sy op num pr s)) =
        trade_db s @ [\<lparr>stamp = now, symbol = sy, operation = op, quantity = num, price = pr\<rparr>])"
  by (auto simp add: trade_def new_trade_op_def)

theorem trade_checks_then_appends_witness:
  "\<not> fst (trade 100 '''' BUY_STOCK 1 (Fin 1.0) startup) \<and>
   \<not> fst (trade 100 ''ALE'' BUY_STOCK (- 1) (Fin 1.0) startup) \<and>
   \<not> fst (trade 100 ''ALE'' BUY_STOCK 1 (Fin (- 1.0)) startup) \<and>
   snd (trade 100 ''ALE'' BUY_STOCK (- 1) (Fin 1.0) startup) = startup \<and>
   fst (trade 100 ''ALE'' BUY_STOCK 10 (Fin 5.0) startup) \<and>
   trade_db (snd (trade 100 ''ALE'' BUY_STOCK 10 (Fin 5.0) startup)) =
     [\<lparr>stamp = 100, symbol = ''ALE'', operation = BUY_STOCK, quantity = 10, price = Fin 5.0\<rparr>]"
  using trade_checks_then_appends [of 100 "''''" BUY_STOCK 1 "Fin 1.0" startup]
    trade_checks_then_appends [of 100 "''ALE''" BUY_STOCK "- 1" "Fin 1.0" startup]
    trade_checks_then_appends [of 100 "''ALE''" BUY_STOCK 1 "Fin (- 1.0)" startup]
    trade_checks_then_appends [of 100 "''ALE''" BUY_STOCK 10 "Fin 5.0" startup]
  by (simp add: startup_def)

subsection \<open>Price recalculation\<close>

text \<open>
  The loop of \<^verbatim>\<open>set_price\<close> counts the records that \<open>trades_for\<close> selects and adds their
  terms to the two accumulators, in the order of the trade database.
\<close>

lemma set_price_loop_trades_for:
  "set_price_loop now sy interval db (trades, tq, q) =
     (trades + length (trades_for sy interval now db),
      foldl dadd tq (map (\<lambda>op. dmul (dint (quantity op)) (trade_op.price op)) (trades_for sy interval now db)),
      foldl dadd q (map (\<lambda>op. dint (quantity op)) (trades_for sy interval now db)))"
  by (induction db arbitrary: trades tq q) (auto simp add: trades_for_def)

text \<open>
  Where the partial sums are exact, the sum of the doubles is the sum of the real numbers;
  where the quantities and their products with the prices are exact, the terms of the
  loop are the real products.
\<close>

lemma foldl_dadd_exact:
  "exact_sums a xs \<Longrightarrow> foldl dadd (Fin a) (map Fin xs) = Fin (a + sum_list xs)"
  by (induction xs arbitrary: a) (simp_all add: exact_def add.assoc)

lemma terms_exact:
  assumes "map trade_op.price ms = map Fin ps"
    and "list_all (\<lambda>op. exact (real_of_int (quantity op))) ms"
    and "list_all exact (map2 (\<lambda>op p. real_of_int (quantity op) * p) ms ps)"
  shows "map (\<lambda>op. dmul (dint (quantity op)) (trade_op.price op)) ms =
         map Fin (map2 (\<lambda>op p. real_of_int (quantity op) * p) ms ps)"
  using assms
proof (induction ms arbitrary: ps)
  case Nil
  then show ?case by simp
next
  case (Cons m ms)
  then obtain p ps' where "ps = p # ps'" by (cases ps) auto
  with Cons show ?case by (auto simp add: dint_def exact_def)
qed

lemma quantities_exact:
  "list_all (\<lambda>op. exact (real_of_int (quantity op))) ms \<Longrightarrow>
   map (\<lambda>op. dint (quantity op)) ms = map Fin (map (\<lambda>op. real_of_int (quantity op)) ms)"
  by (induction ms) (simp_all add: dint_def exact_def)

lemma volume_weighted_average_exact:
  assumes "map trade_op.price ms = map Fin ps"
    and "list_all (\<lambda>op. exact (real_of_int (quantity op))) ms"
    and "list_all exact (map2 (\<lambda>op p. real_of_int (quantity op) * p) ms ps)"
    and "exact_sums 0 (map2 (\<lambda>op p. real_of_int (quantity op) * p) ms ps)"
    and "exact_sums 0 (map (\<lambda>op. real_of_int (quantity op)) ms)"
    and "(\<Sum>op\<leftarrow>ms. quantity op) \<noteq> 0"
  shows "volume_weighted_average ms =
    round_double ((\<Sum>(op, p)\<leftarrow>zip ms ps. real_of_int (quantity op) * p) /
                  real_of_int (\<Sum>op\<leftarrow>ms. quantity op))"
proof -
  have num: "dsum (map (\<lambda>op. dmul (dint (quantity op)) (trade_op.price op)) ms) =
      Fin (\<Sum>(op, p)\<leftarrow>zip ms ps. real_of_int (quantity op) * p)"
    unfolding dsum_def terms_exact [OF assms(1,2,3)]
    using foldl_dadd_exact [OF assms(4)] by simp
  have "real_of_int (\<Sum>op\<leftarrow>ms. quantity op) = (\<Sum>op\<leftarrow>ms. real_of_int (quantity op))"
    by (induction ms) simp_all
  then have den: "dsum (map (\<lambda>op. dint (quantity op)) ms) = Fin (real_of_int (\<Sum>op\<leftarrow>ms. quantity op))"
    unfolding dsum_def quantities_exact [OF assms(2)]
    using foldl_dadd_exact [OF assms(5)] by simp
  show ?thesis
    unfolding volume_weighted_average_def num den using assms(6) by simp
qed

text \<open>
  Claim C1. When at least one record of the trade database has the entry's symbol and an
  age of at most the interval, \<^verbatim>\<open>set_price(interval)\<close> assigns to the entry's price the
  sum of quantity times price over those records divided by the sum of their quantities,
  in double arithmetic and in the order of the trade database, changes no other member,
  and returns that price. When the prices of those records are finite, the quantities,
  the products and the partial sums are exact and the sum of the quantities is not zero,
  that price is the double nearest to the quotient of the two real sums.
\<close>

theorem set_price_volume_weighted_average:
  assumes "ms = trades_for (stock.symbol this) interval now db" and "ms \<noteq> []"
  shows "set_price now db interval this =
           (volume_weighted_average ms, this\<lparr>stock.price := volume_weighted_average ms\<rparr>) \<and>
         (map trade_op.price ms = map Fin ps \<and>
          list_all (\<lambda>op. exact (real_of_int (quantity op))) ms \<and>
          list_all exact (map2 (\<lambda>op p. real_of_int (quantity op) * p) ms ps) \<and>
          exact_sums 0 (map2 (\<lambda>op p. real_of_int (quantity op) * p) ms ps) \<and>
          exact_sums 0 (map (\<lambda>op. real_of_int (quantity op)) ms) \<and>
          (\<Sum>op\<leftarrow>ms. quantity op) \<noteq> 0 \<longrightarrow>
            volume_weighted_average ms =
              round_double ((\<Sum>(op, p)\<leftarrow>zip ms ps. real_of_int (quantity op) * p) /
                            real_of_int (\<Sum>op\<leftarrow>ms. quantity op)))"
proof
  show "set_price now db interval this =
           (volume_weighted_average ms, this\<lparr>stock.price := volume_weighted_average ms\<rparr>)"
    using assms
    by (simp add: set_price_def set_price_loop_trades_for volume_weighted_average_def dsum_def)
  show "map trade_op.price ms = map Fin ps \<and>
          list_all (\<lambda>op. exact (real_of_int (quantity op))) ms \<and>
          list_all exact (map2 (\<lambda>op p. real_of_int (quantity op) * p) ms ps) \<and>
          exact_sums 0 (map2 (\<lambda>op p. real_of_int (quantity op) * p) ms ps) \<and>
          exact_sums 0 (map (\<lambda>op. real_of_int (quantity op)) ms) \<and>
          (\<Sum>op\<leftarrow>ms. quantity op) \<noteq> 0 \<longrightarrow>
            volume_weighted_average ms =
              round_double ((\<Sum>(op, p)\<leftarrow>zip ms ps. real_of_int (quantity op) * p) /
                            real_of_int (\<Sum>op\<leftarrow>ms. quantity op))"
    using volume_weighted_average_exact by blast
qed

text \<open>
  The trades (10, 2.0) and (20, 3.0) of the example give the double nearest to
  (10 * 2.0 + 20 * 3.0) / (10 + 20), which is 6004799503160661 / 2 ^ 51.
\<close>

lemma example_trades_for:
  "trades_for ''ALE'' 900 1500 example_db =
    [ \<lparr>stamp = 1000, symbol = ''ALE'', operation = BUY_STOCK, quantity = 10, price = Fin 2.0\<rparr>,
      \<lparr>stamp = 1200, symbol = ''ALE'', operation = SELL_STOCK, quantity = 20, price = Fin 3.0\<rparr> ]"
  by (simp add: trades_for_def example_db_def)

theorem set_price_volume_weighted_average_witness:
  "trades_for ''ALE'' 900 1500 example_db \<noteq> [] \<and>
   set_price 1500 example_db 900 (new_stock ''ALE'' COMMON_STOCK (dlit 0.23) (dint 0) (dlit 0.60)) =
     (round_double ((10 * 2.0 + 20 * 3.0) / (10 + 20)),
      (new_stock ''ALE'' COMMON_STOCK (dlit 0.23) (dint 0) (dlit 0.60))
        \<lparr>stock.price := round_double ((10 * 2.0 + 20 * 3.0) / (10 + 20))\<rparr>) \<and>
   round_double ((10 * 2.0 + 20 * 3.0) / (10 + 20)) = Fin (6004799503160661 / 2 ^ 51)"
proof -
  let ?st = "new_stock ''ALE'' COMMON_STOCK (dlit 0.23) (dint 0) (dlit 0.60)"
  let ?ms = "trades_for ''ALE'' 900 1500 example_db"
  have sy: "stock.symbol ?st = ''ALE''"
    by (simp add: new_stock_def)
  have ms: "?ms = trades_for (stock.symbol ?st) 900 1500 example_db"
    unfolding sy by (rule refl)
  have ne: "?ms \<noteq> []"
    by (simp add: example_trades_for)
  have hyp: "map trade_op.price ?ms = map Fin [2.0, 3.0] \<and>
      list_all (\<lambda>op. exact (real_of_int (quantity op))) ?ms \<and>
      list_all exact (map2 (\<lambda>op p. real_of_int (quantity op) * p) ?ms [2.0, 3.0]) \<and>
      exact_sums 0 (map2 (\<lambda>op p. real_of_int (quantity op) * p) ?ms [2.0, 3.0]) \<and>
      exact_sums 0 (map (\<lambda>op. real_of_int (quantity op)) ?ms) \<and>
      (\<Sum>op\<leftarrow>?ms. quantity op) \<noteq> 0"
    by (simp add: example_trades_for exact_def)
  from set_price_volume_weighted_average [OF ms ne, of "[2.0, 3.0]"] hyp
  have "set_price 1500 example_db 900 ?st =
      (round_double ((\<Sum>(op, p)\<leftarrow>zip ?ms [2.0, 3.0]. real_of_int (quantity op) * p) /
                     real_of_int (\<Sum>op\<leftarrow>?ms. quantity op)),
       ?st\<lparr>stock.price := round_double ((\<Sum>(op, p)\<leftarrow>zip ?ms [2.0, 3.0]. real_of_int (quantity op) * p) /
                     real_of_int (\<Sum>op\<leftarrow>?ms. quantity op))\<rparr>)"
    by simp
  then show ?thesis
    using ne by (simp add: example_trades_for round_double_eight_thirds)
qed

text \<open>
  Claim C2. When no record of the trade database has the entry's symbol and an age of at
  most the interval, \<^verbatim>\<open>set_price(interval)\<close> returns the entry's price and leaves the
  entry as it was; the call on an entry of the index leaves the whole state as it was:
  every member of every entry, and the trade database.
\<close>

theorem set_price_without_trades:
  assumes "trades_for (stock.symbol (list (gbce s) ! i)) interval now (trade_db s) = []"
    and "i < length (list (gbce s))"
  shows "set_price now (trade_db s) interval (list (gbce s) ! i) =
           (stock.price (list (gbce s) ! i), list (gbce s) ! i) \<and>
         set_price_at now i interval s = (stock.price (list (gbce s) ! i), s)"
  using assms by (simp add: set_price_at_def set_price_def set_price_loop_trades_for Let_def)

theorem set_price_without_trades_witness:
  "trades_for (stock.symbol (list (gbce \<lparr>trade_db = example_db, gbce = new_the_index\<rparr>) ! 1)) 900 1500 example_db = [] \<and>
   set_price_at 1500 1 900 \<lparr>trade_db = example_db, gbce = new_the_index\<rparr> =
     (Fin 1.00, \<lparr>trade_db = example_db, gbce = new_the_index\<rparr>)"
  using set_price_without_trades [of "\<lparr>trade_db = example_db, gbce = new_the_index\<rparr>" 1 900 1500]
  by (simp add: new_the_index_def new_stock_def trades_for_def example_db_def)

subsection \<open>The index\<close>

text \<open>The loop of \<^verbatim>\<open>get_index\<close> multiplies the prices that are not zero.\<close>

lemma get_index_loop_foldl:
  "get_index_loop sts tmp = foldl dmul tmp (filter dtrue (map get_price sts))"
  by (induction sts arbitrary: tmp) (simp_all add: Let_def)

lemma foldl_dmul_exact:
  "exact_products a ps \<Longrightarrow> foldl dmul (Fin a) (map Fin ps) = Fin (a * prod_list ps)"
  by (induction ps arbitrary: a) (simp_all add: exact_def mult.assoc)

lemma filter_dtrue_Fin: "filter dtrue (map Fin ps) = map Fin (filter (\<lambda>p. p \<noteq> 0) ps)"
  by (induction ps) (simp_all add: dtrue_def)

text \<open>
  Claim C3. For an index of \<open>n\<close> entries, \<open>n\<close> not zero, \<^verbatim>\<open>get_index\<close> returns the power
  \<open>1 / n\<close>, computed by \<^verbatim>\<open>pow\<close>, of the product of the prices that are not zero, in double
  arithmetic and in the order of the entries, where \<open>n\<close> counts every entry, also those
  with a price of zero. When the prices are finite and the partial products of those that
  are not zero are exact, the product is the real product. With a correctly rounded
  \<^verbatim>\<open>pow\<close> and the five prices 1, 2, 4, 8 and 16 the result is 4, and so it is with the
  five prices 0, 1, 4, 4 and 64.
\<close>

theorem get_index_geometric_mean:
  assumes "n = length (list this)" and "0 < n"
  shows "get_index pow this =
           pow (dprod (filter dtrue (map get_price (list this)))) (ddiv (Fin 1) (dint (int n))) \<and>
         (map get_price (list this) = map Fin ps \<and>
          exact_products 1 (filter (\<lambda>p. p \<noteq> 0) ps) \<longrightarrow>
            get_index pow this =
              pow (Fin (prod_list (filter (\<lambda>p. p \<noteq> 0) ps))) (ddiv (Fin 1) (dint (int n))))"
proof
  show idx: "get_index pow this =
      pow (dprod (filter dtrue (map get_price (list this)))) (ddiv (Fin 1) (dint (int n)))"
    using assms by (simp add: get_index_def get_index_loop_foldl dprod_def)
  show "map get_price (list this) = map Fin ps \<and>
          exact_products 1 (filter (\<lambda>p. p \<noteq> 0) ps) \<longrightarrow>
            get_index pow this =
              pow (Fin (prod_list (filter (\<lambda>p. p \<noteq> 0) ps))) (ddiv (Fin 1) (dint (int n)))"
  proof
    assume a: "map get_price (list this) = map Fin ps \<and>
          exact_products 1 (filter (\<lambda>p. p \<noteq> 0) ps)"
    then have "dprod (filter dtrue (map get_price (list this))) =
        Fin (prod_list (filter (\<lambda>p. p \<noteq> 0) ps))"
      using foldl_dmul_exact [of 1 "filter (\<lambda>p. p \<noteq> 0) ps"]
      by (simp add: dprod_def filter_dtrue_Fin)
    then show "get_index pow this =
        pow (Fin (prod_list (filter (\<lambda>p. p \<noteq> 0) ps))) (ddiv (Fin 1) (dint (int n)))"
      using idx by simp
  qed
qed

text \<open>The fifth root of 1024 with the correctly rounded \<^verbatim>\<open>pow\<close>.\<close>

lemma pow_rounded_1024_fifth: "pow_rounded (Fin 1024) (round_double (1 / 5)) = Fin 4"
  using round_double_fifth pow_1024_fifth by simp

theorem get_index_geometric_mean_witness:
  "length (list example_index) = 5 \<and>
   map get_price (list example_index) = map Fin [1, 2, 4, 8, 16] \<and>
   get_index pow_rounded example_index = Fin 4.0 \<and>
   length (list example_index_zero) = 5 \<and>
   map get_price (list example_index_zero) = map Fin [0, 1, 4, 4, 64] \<and>
   get_index pow_rounded example_index_zero = Fin 4.0 \<and>
   root 5 (1 * 2 * 4 * 8 * 16) = (4.0 :: real)"
proof -
  have r: "root 5 (1024::real) = 4"
    using real_root_power_cancel [of 5 4] by simp
  have pos: "0 < (5::nat)"
    by simp
  have len: "5 = length (list example_index)"
    and prices: "map get_price (list example_index) = map Fin [1, 2, 4, 8, 16]"
    by (simp_all add: example_index_def new_stock_def get_price_def)
  have ex: "exact_products 1 (filter (\<lambda>p. p \<noteq> 0) [1, 2, 4, 8, 16])"
    by (simp add: exact_def)
  from get_index_geometric_mean [OF len pos, of pow_rounded "[1, 2, 4, 8, 16]"] prices ex
  have "get_index pow_rounded example_index =
      pow_rounded (Fin (prod_list (filter (\<lambda>p. p \<noteq> 0) [1, 2, 4, 8, 16]))) (ddiv (Fin 1) (dint (int 5)))"
    by blast
  then have 1: "get_index pow_rounded example_index = Fin 4"
    by (simp add: pow_rounded_1024_fifth)
  have len0: "5 = length (list example_index_zero)"
    and prices0: "map get_price (list example_index_zero) = map Fin [0, 1, 4, 4, 64]"
    by (simp_all add: example_index_zero_def new_stock_def get_price_def)
  have ex0: "exact_products 1 (filter (\<lambda>p. p \<noteq> 0) [0, 1, 4, 4, 64])"
    by (simp add: exact_def)
  from get_index_geometric_mean [OF len0 pos, of pow_rounded "[0, 1, 4, 4, 64]"] prices0 ex0
  have "get_index pow_rounded example_index_zero =
      pow_rounded (Fin (prod_list (filter (\<lambda>p. p \<noteq> 0) [0, 1, 4, 4, 64]))) (ddiv (Fin 1) (dint (int 5)))"
    by blast
  then have 2: "get_index pow_rounded example_index_zero = Fin 4"
    by (simp add: pow_rounded_1024_fifth)
  from 1 2 r len prices len0 prices0 show ?thesis
    by simp
qed

subsection \<open>Prices in the reachable states\<close>

text \<open>Sums, products and quotients of doubles that are not negative.\<close>

lemma not_negative_cases: "not_negative x \<longleftrightarrow> x = NaN \<or> x = PInf \<or> (\<exists>r\<ge>0. x = Fin r)"
  by (cases x) (auto simp add: not_negative_def)

lemma not_negative_round_double: "0 \<le> x \<Longrightarrow> not_negative (round_double x)"
  using round_double_nonneg [of x] by (auto simp add: not_negative_def)

lemma not_negative_dint: "0 \<le> n \<Longrightarrow> not_negative (dint n)"
  by (simp add: dint_def not_negative_round_double)

lemma not_negative_dlit: "0 \<le> x \<Longrightarrow> not_negative (dlit x)"
  by (simp add: dlit_def not_negative_round_double)

lemma not_negative_dadd: "not_negative a \<Longrightarrow> not_negative b \<Longrightarrow> not_negative (dadd a b)"
proof (cases a; cases b)
  fix x y
  assume "not_negative a" and "not_negative b" and "a = Fin x" and "b = Fin y"
  then have "0 \<le> x" and "0 \<le> y" and "dadd a b = round_double (x + y)"
    by (simp_all add: not_negative_def)
  then show "not_negative (dadd a b)"
    by (simp add: not_negative_round_double)
qed (auto simp add: not_negative_def)

lemma not_negative_dmul: "not_negative a \<Longrightarrow> not_negative b \<Longrightarrow> not_negative (dmul a b)"
proof (cases a; cases b)
  fix x y
  assume "not_negative a" and "not_negative b" and "a = Fin x" and "b = Fin y"
  then have "0 \<le> x" and "0 \<le> y" and "dmul a b = round_double (x * y)"
    by (simp_all add: not_negative_def)
  then show "not_negative (dmul a b)"
    by (simp add: not_negative_round_double)
qed (auto simp add: not_negative_def inf_of_sign_def)

lemma not_negative_ddiv: "not_negative a \<Longrightarrow> not_negative b \<Longrightarrow> not_negative (ddiv a b)"
proof (cases a; cases b)
  fix x y
  assume "not_negative a" and "not_negative b" and "a = Fin x" and "b = Fin y"
  then have "0 \<le> x" and "0 \<le> y"
    by (simp_all add: not_negative_def)
  then have "y \<noteq> 0 \<Longrightarrow> not_negative (round_double (x / y))"
    by (intro not_negative_round_double) simp
  then show "not_negative (ddiv a b)"
    using \<open>a = Fin x\<close> \<open>b = Fin y\<close> \<open>0 \<le> x\<close>
    by (auto simp add: inf_of_sign_def not_negative_def)
qed (auto simp add: not_negative_def inf_of_sign_def)

lemma not_negative_foldl_dadd:
  "not_negative a \<Longrightarrow> list_all not_negative xs \<Longrightarrow> not_negative (foldl dadd a xs)"
  by (induction xs arbitrary: a) (auto simp add: not_negative_dadd)

lemma trades_for_ok: "list_all trade_ok db \<Longrightarrow> list_all trade_ok (trades_for sy w now db)"
  by (induction db) (auto simp add: trades_for_def)

lemma terms_not_negative:
  "list_all trade_ok ms \<Longrightarrow>
   list_all not_negative (map (\<lambda>op. dmul (dint (quantity op)) (trade_op.price op)) ms)"
  by (induction ms) (auto simp add: trade_ok_def not_negative_dmul not_negative_dint)

lemma quantities_not_negative:
  "list_all trade_ok ms \<Longrightarrow> list_all not_negative (map (\<lambda>op. dint (quantity op)) ms)"
  by (induction ms) (auto simp add: trade_ok_def not_negative_dint)

text \<open>
  \<^verbatim>\<open>set_price\<close> assigns the price only, and the price it assigns is not negative when the
  trade database holds no negative quantity and no negative price.
\<close>

lemma set_price_keeps_invariant:
  assumes "list_all trade_ok db" and "not_negative (stock.price this)"
  shows "\<exists>x. not_negative x \<and> snd (set_price now db w this) = this\<lparr>stock.price := x\<rparr>"
proof (cases "trades_for (stock.symbol this) w now db = []")
  case True
  then have "snd (set_price now db w this) = this\<lparr>stock.price := stock.price this\<rparr>"
    by (simp add: set_price_def set_price_loop_trades_for)
  with assms(2) show ?thesis by blast
next
  case False
  let ?ms = "trades_for (stock.symbol this) w now db"
  let ?tq = "foldl dadd (Fin 0) (map (\<lambda>op. dmul (dint (quantity op)) (trade_op.price op)) ?ms)"
  let ?q = "foldl dadd (Fin 0) (map (\<lambda>op. dint (quantity op)) ?ms)"
  have ok: "list_all trade_ok ?ms"
    using assms(1) by (rule trades_for_ok)
  have z: "not_negative (Fin 0)"
    by (simp add: not_negative_def)
  have tq: "not_negative ?tq"
    using z terms_not_negative [OF ok] by (rule not_negative_foldl_dadd)
  have q: "not_negative ?q"
    using z quantities_not_negative [OF ok] by (rule not_negative_foldl_dadd)
  have "snd (set_price now db w this) = this\<lparr>stock.price := ddiv ?tq ?q\<rparr>"
    using False by (simp add: set_price_def set_price_loop_trades_for)
  moreover have "not_negative (ddiv ?tq ?q)"
    using tq q by (rule not_negative_ddiv)
  ultimately show ?thesis by blast
qed

lemma price_loop_keeps_invariant:
  assumes "list_all trade_ok db"
  shows "list_all (\<lambda>st. not_negative (stock.price st)) sts \<Longrightarrow>
    list_all (\<lambda>st. not_negative (stock.price st)) (price_loop now db sts) \<and>
    map fixed_fields (price_loop now db sts) = map fixed_fields sts"
proof (induction sts)
  case Nil
  then show ?case by simp
next
  case (Cons st sts)
  then have "not_negative (stock.price st)" by simp
  from set_price_keeps_invariant [OF assms this, of now FIFTEEN_MINS]
  obtain x where "not_negative x" and "snd (set_price now db FIFTEEN_MINS st) = st\<lparr>stock.price := x\<rparr>"
    by blast
  with Cons show ?case by (simp add: fixed_fields_def)
qed

text \<open>A literal of at least one half is a positive double.\<close>

lemma dlit_positive:
  assumes "1 / 2 \<le> x"
  shows "dlt (Fin 0) (dlit x)"
proof -
  have "(2::real) powi (- 1074) \<le> 2 powi (- 1)"
    by (intro power_int_increasing) simp_all
  also have "\<dots> = 1 / 2"
    by (simp add: power_int_minus)
  finally have "2 powi (- 1074) \<le> x"
    using assms by linarith
  from round_double_pos [OF this] show ?thesis
    by (auto simp add: dlit_def)
qed

text \<open>The invariant holds at startup and every operation keeps it.\<close>

lemma state_inv_startup: "state_inv startup"
proof -
  have "not_negative (dlit 1.00)" and "not_negative (dlit 0.60)" and "not_negative (dlit 2.50)"
    by (simp_all add: not_negative_dlit del: dlit_1)
  then show ?thesis
    by (simp add: state_inv_def startup_def new_the_index_def new_stock_def)
qed

lemma state_inv_trade: "state_inv s \<Longrightarrow> state_inv (snd (trade now sy op num pr s))"
  by (auto simp add: state_inv_def trade_def new_trade_op_def trade_ok_def not_negative_def)

lemma state_inv_random_trade: "state_inv s \<Longrightarrow> state_inv (random_trade now r1 r2 r3 sy s)"
proof -
  assume inv: "state_inv s"
  have "not_negative (dadd (dlit 0.41) (ddiv (dint (int (r3 mod 299))) (dlit 100.0)))"
    by (intro not_negative_dadd not_negative_ddiv not_negative_dint not_negative_dlit) simp_all
  then show ?thesis
    using inv by (simp add: state_inv_def random_trade_def new_trade_op_def trade_ok_def)
qed

lemma state_inv_the_index_price: "state_inv s \<Longrightarrow> state_inv (the_index_price now s)"
  using price_loop_keeps_invariant [of "trade_db s" "list (gbce s)" now]
  by (simp add: state_inv_def the_index_price_def)

lemma state_inv_set_price_at:
  assumes "state_inv s" and "i < length (list (gbce s))"
  shows "state_inv (snd (set_price_at now i w s))"
proof -
  let ?st = "list (gbce s) ! i"
  have "not_negative (stock.price ?st)"
    using assms by (simp add: state_inv_def list_all_length)
  from set_price_keeps_invariant [OF _ this, of "trade_db s" now w] assms(1)
  obtain x where x: "not_negative x" "snd (set_price now (trade_db s) w ?st) = ?st\<lparr>stock.price := x\<rparr>"
    by (auto simp add: state_inv_def)
  have l: "list (gbce (snd (set_price_at now i w s))) = (list (gbce s))[i := ?st\<lparr>stock.price := x\<rparr>]"
    and d: "trade_db (snd (set_price_at now i w s)) = trade_db s"
    using x(2) by (simp_all add: set_price_at_def split_beta)
  have "map fixed_fields ((list (gbce s))[i := ?st\<lparr>stock.price := x\<rparr>]) = map fixed_fields (list (gbce s))"
    using assms(2) by (simp add: map_update fixed_fields_def list_update_same_conv)
  moreover have "list_all (\<lambda>st. not_negative (stock.price st)) ((list (gbce s))[i := ?st\<lparr>stock.price := x\<rparr>])"
    using assms x(1) by (auto simp add: state_inv_def list_all_length nth_list_update)
  ultimately show ?thesis
    using assms(1) by (simp add: state_inv_def l d)
qed

lemma reachable_state_inv: "reachable s \<Longrightarrow> state_inv s"
proof (induction rule: reachable.induct)
  case reachable_startup
  show ?case by (rule state_inv_startup)
next
  case (reachable_trade s now sy op num pr)
  then show ?case by (simp add: state_inv_trade)
next
  case (reachable_random_trade s now r1 r2 r3 sy)
  then show ?case by (simp add: state_inv_random_trade)
next
  case (reachable_set_price s i now interval)
  then show ?case by (simp add: state_inv_set_price_at)
next
  case (reachable_price s now)
  then show ?case by (simp add: state_inv_the_index_price)
qed

text \<open>
  Claim C7, amended. In every reachable state, the par value of every stock entry is
  greater than 0 and is the one of startup, and the current price of every stock entry is
  not negative: the comparison \<^verbatim>\<open>price < 0\<close> is false. A price of 0 is reachable.
\<close>

theorem reachable_price_not_negative:
  assumes "reachable s" and "st \<in> set (list (gbce s))"
  shows "\<not> dlt (stock.price st) (Fin 0) \<and> dlt (Fin 0) (par_value st) \<and>
         map par_value (list (gbce s)) = map par_value (list (gbce startup))"
proof -
  have inv: "state_inv s"
    using assms(1) by (rule reachable_state_inv)
  then have p: "\<not> dlt (stock.price st) (Fin 0)"
    using assms(2) by (simp add: state_inv_def list_all_iff not_negative_def)
  have "fixed_fields st \<in> set (map fixed_fields (list new_the_index))"
    using inv assms(2) by (metis state_inv_def image_eqI set_map)
  then have v: "dlt (Fin 0) (par_value st)"
    using dlit_positive [of "0.60"] dlit_positive [of "2.50"]
    by (auto simp add: fixed_fields_def new_the_index_def new_stock_def)
  have "map fixed_fields (list (gbce s)) = map fixed_fields (list new_the_index)"
    using inv by (simp add: state_inv_def)
  then have "map (\<lambda>t. snd (snd (snd (snd t)))) (map fixed_fields (list (gbce s))) =
        map (\<lambda>t. snd (snd (snd (snd t)))) (map fixed_fields (list new_the_index))"
    by (rule arg_cong)
  then have "map par_value (list (gbce s)) = map par_value (list (gbce startup))"
    by (simp add: fixed_fields_def startup_def comp_def)
  with p v show ?thesis by simp
qed

text \<open>
  The claim as stated, that every price is greater than 0 in every reachable state, fails
  after a trade of TEA at the price 0, which \<^verbatim>\<open>trade\<close> accepts, and a recalculation of
  the prices.
\<close>

lemma reachable_zero_price_state: "reachable zero_price_state"
  unfolding zero_price_state_def by (intro reachable.intros)

theorem price_zero_counterexample:
  "reachable zero_price_state \<and>
   list (gbce zero_price_state) ! 0 \<in> set (list (gbce zero_price_state)) \<and>
   \<not> dlt (Fin 0) (stock.price (list (gbce zero_price_state) ! 0))"
  using reachable_zero_price_state
  by (simp add: zero_price_state_def the_index_price_def trade_def startup_def new_the_index_def
      new_stock_def set_price_def new_trade_op_def FIFTEEN_MINS_def dint_def)

theorem reachable_price_not_negative_witness:
  "reachable zero_price_state \<and>
   list (gbce zero_price_state) ! 0 \<in> set (list (gbce zero_price_state)) \<and>
   stock.price (list (gbce zero_price_state) ! 0) = Fin 0 \<and>
   \<not> dlt (stock.price (list (gbce zero_price_state) ! 0)) (Fin 0) \<and>
   dlt (Fin 0) (par_value (list (gbce zero_price_state) ! 0))"
proof -
  have m: "list (gbce zero_price_state) ! 0 \<in> set (list (gbce zero_price_state))"
    and z: "stock.price (list (gbce zero_price_state) ! 0) = Fin 0"
    by (simp_all add: zero_price_state_def the_index_price_def trade_def startup_def new_the_index_def
      new_stock_def set_price_def new_trade_op_def FIFTEEN_MINS_def dint_def)
  from reachable_price_not_negative [OF reachable_zero_price_state m] reachable_zero_price_state m z
  show ?thesis by simp
qed

subsection \<open>The division in the price recalculation\<close>

text \<open>
  When every selected record has the quantity 0, the loop of \<^verbatim>\<open>set_price\<close> ends with the
  divisor \<^verbatim>\<open>q\<close> equal to 0, whatever the number of selected records.
\<close>

lemma foldl_dadd_zero_quantities:
  "list_all (\<lambda>op. quantity op = 0) ms \<Longrightarrow>
   foldl dadd (Fin 0) (map (\<lambda>op. dint (quantity op)) ms) = Fin 0"
  by (induction ms) simp_all

lemma set_price_loop_zero_quantities:
  assumes "list_all (\<lambda>op. quantity op = 0) (trades_for sy interval now db)"
  shows "\<exists>tq. set_price_loop now sy interval db (0, Fin 0.0, Fin 0.0) =
           (length (trades_for sy interval now db), tq, Fin 0)"
  using foldl_dadd_zero_quantities [OF assms]
  by (simp add: set_price_loop_trades_for)

text \<open>
  The state after the accepted call \<^verbatim>\<open>trade("TEA", BUY_STOCK, 0, 1.0)\<close> at startup: the
  loop of \<^verbatim>\<open>set_price\<close> for TEA ends with one trade counted and both sums 0, and the price
  becomes 0.0 / 0.0.
\<close>

lemma zero_quantity_state_divisor:
  "fst (trade 100 ''TEA'' BUY_STOCK 0 (Fin 1.0) startup) \<and>
   reachable zero_quantity_state \<and>
   list (gbce zero_quantity_state) ! 0 \<in> set (list (gbce zero_quantity_state)) \<and>
   stock.symbol (list (gbce zero_quantity_state) ! 0) = ''TEA'' \<and>
   trades_for ''TEA'' FIFTEEN_MINS 100 (trade_db zero_quantity_state) =
     [\<lparr>stamp = 100, symbol = ''TEA'', operation = BUY_STOCK, quantity = 0, price = Fin 1.0\<rparr>] \<and>
   set_price_loop 100 ''TEA'' FIFTEEN_MINS (trade_db zero_quantity_state) (0, Fin 0.0, Fin 0.0) =
     (1, Fin 0, Fin 0) \<and>
   set_price 100 (trade_db zero_quantity_state) FIFTEEN_MINS (list (gbce zero_quantity_state) ! 0) =
     (NaN, (list (gbce zero_quantity_state) ! 0)\<lparr>stock.price := NaN\<rparr>)"
proof -
  have "reachable zero_quantity_state"
    unfolding zero_quantity_state_def by (intro reachable.intros)
  then show ?thesis
    by (simp add: zero_quantity_state_def trade_def startup_def new_the_index_def new_stock_def
        new_trade_op_def trades_for_def FIFTEEN_MINS_def set_price_def dint_def inf_of_sign_def)
qed

text \<open>
  Claim C10. The division of \<^verbatim>\<open>set_price\<close> is guarded by the count of the matching
  trades only: there is a reachable state, the one after a call of \<^verbatim>\<open>trade\<close> with the
  quantity 0 that \<^verbatim>\<open>trade\<close> accepts, with a stock entry, an interval and a clock value
  for which at least one record matches, every matching record has the quantity 0,
  the loop ends with a count that is not zero and the divisor \<^verbatim>\<open>q\<close> equal to 0, and
  \<^verbatim>\<open>set_price\<close> assigns and returns the quotient by that zero divisor, a NaN.
\<close>

theorem set_price_divides_by_zero:
  "\<exists>s this interval now trades tq.
     fst (trade now (stock.symbol this) BUY_STOCK 0 (Fin 1.0) startup) \<and>
     s = snd (trade now (stock.symbol this) BUY_STOCK 0 (Fin 1.0) startup) \<and>
     reachable s \<and> this \<in> set (list (gbce s)) \<and>
     trades_for (stock.symbol this) interval now (trade_db s) \<noteq> [] \<and>
     list_all (\<lambda>op. quantity op = 0) (trades_for (stock.symbol this) interval now (trade_db s)) \<and>
     set_price_loop now (stock.symbol this) interval (trade_db s) (0, Fin 0.0, Fin 0.0) =
       (trades, tq, Fin 0) \<and>
     trades \<noteq> 0 \<and>
     set_price now (trade_db s) interval this =
       (ddiv tq (Fin 0), this\<lparr>stock.price := ddiv tq (Fin 0)\<rparr>) \<and>
     ddiv tq (Fin 0) = NaN"
proof -
  let ?s = zero_quantity_state
  let ?this = "list (gbce zero_quantity_state) ! 0"
  have "fst (trade 100 (stock.symbol ?this) BUY_STOCK 0 (Fin 1.0) startup) \<and>
     ?s = snd (trade 100 (stock.symbol ?this) BUY_STOCK 0 (Fin 1.0) startup) \<and>
     reachable ?s \<and> ?this \<in> set (list (gbce ?s)) \<and>
     trades_for (stock.symbol ?this) FIFTEEN_MINS 100 (trade_db ?s) \<noteq> [] \<and>
     list_all (\<lambda>op. quantity op = 0) (trades_for (stock.symbol ?this) FIFTEEN_MINS 100 (trade_db ?s)) \<and>
     set_price_loop 100 (stock.symbol ?this) FIFTEEN_MINS (trade_db ?s) (0, Fin 0.0, Fin 0.0) =
       (1, Fin 0, Fin 0) \<and>
     (1::nat) \<noteq> 0 \<and>
     set_price 100 (trade_db ?s) FIFTEEN_MINS ?this =
       (ddiv (Fin 0) (Fin 0), ?this\<lparr>stock.price := ddiv (Fin 0) (Fin 0)\<rparr>) \<and>
     ddiv (Fin 0) (Fin 0) = NaN"
    using zero_quantity_state_divisor by (simp add: inf_of_sign_def zero_quantity_state_def)
  then show ?thesis by blast
qed

subsection \<open>The dispatcher's return value\<close>

text \<open>
  The first token that the loop of \<^verbatim>\<open>getline\<close> calls produces is the text before the
  first space of the line; there is no token only when the line is empty.
\<close>

lemma split_loop_first:
  "acc \<noteq> [] \<or> cs \<noteq> [] \<Longrightarrow>
   \<exists>rest. split_loop acc cs = (rev acc @ takeWhile (\<lambda>c. c \<noteq> CHR '' '') cs) # rest"
proof (induction cs arbitrary: acc)
  case Nil
  then show ?case by simp
next
  case (Cons c cs)
  show ?case
  proof (cases "c = CHR '' ''")
    case True
    then show ?thesis by simp
  next
    case False
    from Cons.IH [of "c # acc"] obtain rest
      where "split_loop (c # acc) cs = (rev (c # acc) @ takeWhile (\<lambda>c. c \<noteq> CHR '' '') cs) # rest"
      by auto
    with False show ?thesis by simp
  qed
qed

lemma split_cmdline_Nil: "split_cmdline cmdline = [] \<longleftrightarrow> cmdline = []"
proof (cases "cmdline = []")
  case True
  then show ?thesis by (simp add: split_cmdline_def)
next
  case False
  with split_loop_first [of "[]" cmdline] show ?thesis
    by (auto simp add: split_cmdline_def)
qed

lemma split_cmdline_first:
  "cmdline \<noteq> [] \<Longrightarrow> split_cmdline cmdline ! 0 = takeWhile (\<lambda>c. c \<noteq> CHR '' '') cmdline"
  using split_loop_first [of "[]" cmdline] by (auto simp add: split_cmdline_def)

lemma process_command_flag:
  "fst (process_command env cmdline s) =
     (\<not> (split_cmdline cmdline \<noteq> [] \<and> split_cmdline cmdline ! 0 = ''quit''))"
  by (simp add: process_command_def Let_def)

text \<open>
  Claim C8, amended. \<^verbatim>\<open>process_command\<close> returns false exactly when the line has a
  first token and that token is \<^verbatim>\<open>quit\<close>, where the tokens are the pieces of the line
  between single space characters: exactly when the text before the first space of the
  line is \<^verbatim>\<open>quit\<close>. For every other line it returns true.
\<close>

theorem process_command_quit:
  "(\<not> fst (process_command env cmdline s)) =
     (split_cmdline cmdline \<noteq> [] \<and> split_cmdline cmdline ! 0 = ''quit'') \<and>
   (\<not> fst (process_command env cmdline s)) =
     (takeWhile (\<lambda>c. c \<noteq> CHR '' '') cmdline = ''quit'')"
proof (cases "cmdline = []")
  case True
  then show ?thesis
    by (simp add: process_command_flag split_cmdline_Nil)
next
  case False
  then show ?thesis
    by (simp add: process_command_flag split_cmdline_Nil split_cmdline_first)
qed

theorem process_command_quit_witness:
  "\<not> fst (process_command example_libc ''quit'' startup) \<and>
   \<not> fst (process_command example_libc ''quit now'' startup) \<and>
   fst (process_command example_libc '' quit'' startup) \<and>
   fst (process_command example_libc ''quitx'' startup) \<and>
   fst (process_command example_libc '''' startup) \<and>
   fst (process_command example_libc ''buy 5'' startup)"
  using process_command_quit [of example_libc "''quit''" startup]
    process_command_quit [of example_libc "''quit now''" startup]
    process_command_quit [of example_libc "'' quit''" startup]
    process_command_quit [of example_libc "''quitx''" startup]
    process_command_quit [of example_libc "''''" startup]
    process_command_quit [of example_libc "''buy 5''" startup]
  by simp

text \<open>
  The claim as stated, with the first whitespace-separated token, fails on a line that
  starts with a space: the first token of \<^verbatim>\<open>" quit"\<close> is empty for the program, which
  reports an unknown command and returns true.
\<close>

theorem leading_space_quit_counterexample:
  "\<not> (\<not> fst (process_command example_libc '' quit'' startup) \<longleftrightarrow>
        first_whitespace_token '' quit'' = ''quit'')"
  by (simp add: process_command_flag split_cmdline_def first_whitespace_token_def isspace_def)

subsection \<open>The trade database only grows\<close>













end
